theory Spec2Isabelle
  imports Complex_Main "HOL-Library.Log_Nat"
begin

section \<open>Python floats\<close>

text \<open>
  Every number the two scripts compute with is a Python \<^verbatim>\<open>float\<close>, an IEEE 754 binary64
  value. A finite binary64 value is a rational number, so the carrier is \<^typ>\<open>rat\<close>, and
  every arithmetic operation is the exact operation followed by rounding to the nearest
  binary64 value, ties to the even significand. Infinities, NaN and the sign of zero are
  not represented: the exponent range is unbounded above (the magnitudes of the program
  are far below \<open>2 ^ 1024\<close>), and bounded below by the subnormal quantum \<open>2 ^ - 1074\<close>.
\<close>

definition pow2 :: "int \<Rightarrow> rat" where
  "pow2 e = (if 0 \<le> e then 2 ^ nat e else 1 / 2 ^ nat (- e))"

text \<open>\<open>ilog2 a\<close> is the binary exponent \<open>\<lfloor>log 2 a\<rfloor>\<close> of a positive rational.\<close>

definition ilog2 :: "rat \<Rightarrow> int" where
  "ilog2 a = (if 1 \<le> a then bitlen \<lfloor>a\<rfloor> - 1 else - bitlen (\<lceil>1 / a\<rceil> - 1))"

definition round_half_even :: "rat \<Rightarrow> int" where
  "round_half_even r =
     (let f = \<lfloor>r\<rfloor>; d = r - of_int f
      in if d < 1 / 2 then f
         else if 1 / 2 < d then f + 1
         else if even f then f else f + 1)"

text \<open>
  The unit in the last place of a value with binary exponent \<open>k\<close> is \<open>2 ^ (k - 52)\<close> (a
  significand of 53 bits), and never less than \<open>2 ^ - 1074\<close>.
\<close>

definition round_double :: "rat \<Rightarrow> rat" where
  "round_double q =
     (if q = 0 then 0
      else let e = max (ilog2 \<bar>q\<bar> - 52) (- 1074)
           in of_int (round_half_even (q / pow2 e)) * pow2 e)"

definition fadd :: "rat \<Rightarrow> rat \<Rightarrow> rat" where
  "fadd x y = round_double (x + y)"

definition fsub :: "rat \<Rightarrow> rat \<Rightarrow> rat" where
  "fsub x y = round_double (x - y)"

definition fmul :: "rat \<Rightarrow> rat \<Rightarrow> rat" where
  "fmul x y = round_double (x * y)"

text \<open>The divisors of the program are the non-zero literals \<open>10\<close> and \<open>1000\<close>.\<close>

definition fdiv :: "rat \<Rightarrow> rat \<Rightarrow> rat" where
  "fdiv x y = round_double (x / y)"

section \<open>The IMU delay simulator (experiments/mujoco/onnx_AMP_mujoco.py)\<close>

text \<open>
  An uncaught Python exception ends the script; the model returns it as a value.
\<close>

datatype py_error = TypeError | IndexError | NameError | SystemExit

text \<open>
  The class \<^verbatim>\<open>ImuDelaySimulator\<close>. A rotation is the list of the four components of a
  quaternion, an angular velocity a list of three; \<open>t0\<close> is \<^verbatim>\<open>None\<close> until the first push.
\<close>

record ImuDelaySimulator =
  delay_ms :: rat
  rot :: "rat list list"
  ang_rot :: "rat list list"
  t0 :: "rat option"

definition ImuDelaySimulator_init :: "rat \<Rightarrow> ImuDelaySimulator" where
  "ImuDelaySimulator_init d = \<lparr>delay_ms = d, rot = [], ang_rot = [], t0 = None\<rparr>"

definition push :: "ImuDelaySimulator \<Rightarrow> rat list \<Rightarrow> rat list \<Rightarrow> rat \<Rightarrow> ImuDelaySimulator" where
  "push self r a t =
     self\<lparr>rot := rot self @ [r],
          ang_rot := ang_rot self @ [a],
          t0 := (case t0 self of None \<Rightarrow> Some t | Some t1 \<Rightarrow> Some t1)\<rparr>"

text \<open>The value \<^verbatim>\<open>[0, 0, 0, 0], [0, 0, 0]\<close> that \<^verbatim>\<open>get\<close> returns while the delay runs.\<close>

definition zeroed :: "rat list \<times> rat list" where
  "zeroed = ([0, 0, 0, 0], [0, 0, 0])"

text \<open>
  The test \<^verbatim>\<open>time.time() - self.t0 < self.delay_ms / 1000\<close> of \<^verbatim>\<open>get\<close>, for the clock
  reading \<open>now\<close> and a first timestamp \<open>t1\<close>: both operations are float operations.
\<close>

definition delay_running :: "rat \<Rightarrow> rat \<Rightarrow> rat \<Rightarrow> bool" where
  "delay_running now t1 d \<longleftrightarrow> fsub now t1 < fdiv d 1000"

text \<open>
  \<^verbatim>\<open>get\<close> reads the clock (\<open>now\<close> is what \<^verbatim>\<open>time.time()\<close> returns in the call). The
  subtraction comes first and raises \<^verbatim>\<open>TypeError\<close> when \<open>t0\<close> is \<^verbatim>\<open>None\<close>;
  \<^verbatim>\<open>pop(0)\<close> raises \<^verbatim>\<open>IndexError\<close> on an empty list.
\<close>

definition get :: "rat \<Rightarrow> ImuDelaySimulator \<Rightarrow> py_error + ((rat list \<times> rat list) \<times> ImuDelaySimulator)" where
  "get now self =
     (case t0 self of
        None \<Rightarrow> Inl TypeError
      | Some t1 \<Rightarrow>
          if delay_running now t1 (delay_ms self) then Inr (zeroed, self)
          else (case rot self of
                  [] \<Rightarrow> Inl IndexError
                | r # rs \<Rightarrow>
                    (case ang_rot self of
                       [] \<Rightarrow> Inl IndexError
                     | a # as \<Rightarrow> Inr ((r, a), self\<lparr>rot := rs, ang_rot := as\<rparr>))))"

text \<open>
  A client of the simulator is a sequence of calls. \<open>run_calls\<close> performs them in order and
  collects what the \<^verbatim>\<open>get\<close> calls return, each with a flag that tells whether the call
  took a value off the queue; the first exception ends the run.
\<close>

datatype imu_call = Push "rat list" "rat list" rat | Get rat

fun run_calls :: "ImuDelaySimulator \<Rightarrow> imu_call list \<Rightarrow>
    py_error + ((bool \<times> (rat list \<times> rat list)) list \<times> ImuDelaySimulator)" where
  "run_calls self [] = Inr ([], self)"
| "run_calls self (Push r a t # cs) = run_calls (push self r a t) cs"
| "run_calls self (Get now # cs) =
     (case get now self of
        Inl e \<Rightarrow> Inl e
      | Inr (v, self') \<Rightarrow>
          (case run_calls self' cs of
             Inl e \<Rightarrow> Inl e
           | Inr (outs, self'') \<Rightarrow>
               Inr ((length (rot self') < length (rot self), v) # outs, self'')))"



fun pushed_value :: "rat list \<times> rat list \<times> rat \<Rightarrow> rat list \<times> rat list" where
  "pushed_value (r, a, t) = (r, a)"

text \<open>A client that pushes a list of (rotation, angular velocity, timestamp) triples in order.\<close>

definition push_all :: "ImuDelaySimulator \<Rightarrow> (rat list \<times> rat list \<times> rat) list \<Rightarrow> ImuDelaySimulator" where
  "push_all self ws = foldl (\<lambda>s (r, a, t). push s r a t) self ws"

section \<open>The walk engine (experiments/placo/bdx_walk.py)\<close>

subsection \<open>Constants, command line and the placo library\<close>

text \<open>
  The literals of the script. \<^verbatim>\<open>0.01\<close> and \<^verbatim>\<open>0.2\<close> are not binary fractions: Python reads
  a float literal as the binary64 value nearest to it.
\<close>

definition DT :: rat where
  "DT = round_double (1 / 100)"

definition REFINE :: nat where
  "REFINE = 10"

definition initial_delay :: rat where
  "initial_delay = - 1"

definition single_support_duration :: rat where
  "single_support_duration = round_double (2 / 10)"

definition replan_timesteps :: rat where
  "replan_timesteps = 10"

text \<open>The four flags of the command line.\<close>

record args =
  args_pybullet :: bool
  args_meshcat :: bool
  args_robot :: bool
  args_mujoco :: bool

text \<open>
  The \<^verbatim>\<open>if\<close>/\<^verbatim>\<open>elif\<close> chain before the loop binds the names of one back end only:
  \<^verbatim>\<open>sim\<close>, \<^verbatim>\<open>viz\<close>, \<^verbatim>\<open>hwi\<close>, or \<^verbatim>\<open>bdx_mujoco_server\<close> together with the two contact
  timers. With no flag the script calls \<^verbatim>\<open>exit()\<close>.
\<close>

datatype backend = Sim | Viz | Hwi | Server

definition bound :: "args \<Rightarrow> backend option" where
  "bound a =
     (if args_pybullet a then Some Sim
      else if args_meshcat a then Some Viz
      else if args_robot a then Some Hwi
      else if args_mujoco a then Some Server
      else None)"

text \<open>
  The placo library is not part of the repository. Its calls are parameters of the model:
  the trajectory, the supports, the task targets and the robot state are opaque values, and
  each call is a function on them. \<^verbatim>\<open>update_tasks_from_trajectory\<close> sets the task targets
  from the trajectory at a time; \<^verbatim>\<open>update_kinematics\<close> and \<^verbatim>\<open>solve\<close> act on the robot
  state, \<^verbatim>\<open>solve\<close> reading the task targets (section 4.1 of the specification);
  \<^verbatim>\<open>replan_supports\<close> reads the step pattern the planner was configured with.
  \<open>parameters_dt\<close> is the value of \<^verbatim>\<open>parameters.dt()\<close>.
\<close>

record ('traj, 'sup, 'tasks, 'rob) placo =
  update_tasks_from_trajectory :: "'traj \<Rightarrow> rat \<Rightarrow> 'tasks \<Rightarrow> 'tasks"
  update_kinematics :: "'rob \<Rightarrow> 'rob"
  solve :: "'tasks \<Rightarrow> 'rob \<Rightarrow> 'rob"
  can_replan_supports :: "'traj \<Rightarrow> rat \<Rightarrow> bool"
  replan_supports :: "rat \<times> rat \<times> rat \<times> int \<Rightarrow> 'traj \<Rightarrow> rat \<Rightarrow> 'sup"
  replan :: "'sup \<Rightarrow> 'traj \<Rightarrow> rat \<Rightarrow> 'traj"
  get_joint :: "'rob \<Rightarrow> string \<Rightarrow> rat"
  parameters_dt :: rat

text \<open>The calls the loop makes to the library and to the back ends, in the order made.\<close>

datatype call =
  Configure rat rat rat int
  | Update_tasks_from_trajectory rat
  | Update_kinematics
  | Solve
  | Can_replan_supports rat
  | Replan_supports rat
  | Replan rat
  | Sim_set_joints
  | Sim_tick
  | Hwi_set_position_all "rat list"
  | Get_feet_contact
  | Send_action "rat list"

subsection \<open>The variables of the loop\<close>

text \<open>
  The module-level variables the loop reads and writes. The two contact timers are bound
  only when the MuJoCo back end was set up: \<open>None\<close> is an unbound name. \<open>planner\<close> is the
  step pattern of the last \<^verbatim>\<open>configure\<close> call, \<open>solver_dt\<close> the field \<^verbatim>\<open>solver.dt\<close>, \<open>tasks\<close>
  the targets of the walk tasks, \<open>calls\<close> the calls made so far.
\<close>

record ('traj, 'sup, 'tasks, 'rob) engine =
  t :: rat
  last_replan :: rat
  petage_de_gueule :: bool
  got_input :: bool
  d_x :: rat
  d_y :: rat
  d_theta :: rat
  nb_steps :: int
  planner :: "rat \<times> rat \<times> rat \<times> int"
  time_since_last_left_contact :: "rat option"
  time_since_last_right_contact :: "rat option"
  trajectory :: 'traj
  supports :: 'sup
  tasks :: 'tasks
  robot :: 'rob
  solver_dt :: rat
  calls :: "call list"

text \<open>
  The state when the loop is entered (lines 82 to 195), from the trajectory, the supports,
  the task targets and the robot state that the set-up calls of placo produced.
\<close>

definition initial_engine ::
  "args \<Rightarrow> 'traj \<Rightarrow> 'sup \<Rightarrow> 'tasks \<Rightarrow> 'rob \<Rightarrow> py_error + ('traj, 'sup, 'tasks, 'rob) engine" where
  "initial_engine a traj sp tk rb =
     (case bound a of
        None \<Rightarrow> Inl SystemExit
      | Some b \<Rightarrow>
          Inr \<lparr>t = initial_delay,
               last_replan = 0,
               petage_de_gueule = False,
               got_input = False,
               d_x = round_double (1 / 10),
               d_y = 0,
               d_theta = 0,
               nb_steps = 5,
               planner = (round_double (1 / 10), 0, 0, 5),
               time_since_last_left_contact = (if b = Server then Some 0 else None),
               time_since_last_right_contact = (if b = Server then Some 0 else None),
               trajectory = traj,
               supports = sp,
               tasks = tk,
               robot = rb,
               solver_dt = fdiv DT (of_nat REFINE),
               calls = []\<rparr>)"

text \<open>
  What one iteration of the loop reads from outside: the pair that \<^verbatim>\<open>get_feet_contact()\<close>
  returns (right foot first), whether \<^verbatim>\<open>key_pressed\<close> is set, and the readings of
  \<^verbatim>\<open>time.time()\<close> that the pacing loop at the end of the iteration takes, in order.
\<close>

record tick_input =
  feet_contact :: "bool \<times> bool"
  key_pressed :: bool
  clock :: "rat list"

subsection \<open>One iteration of the loop\<close>

text \<open>Lines 197 to 199.\<close>

definition configure_step ::
  "('traj, 'sup, 'tasks, 'rob) engine \<Rightarrow> ('traj, 'sup, 'tasks, 'rob) engine" where
  "configure_step s =
     (if got_input s
      then s\<lparr>planner := (d_x s, d_y s, d_theta s, nb_steps s),
             got_input := False,
             calls := calls s @ [Configure (d_x s) (d_y s) (d_theta s) (nb_steps s)]\<rparr>
      else s)"

text \<open>
  The expression \<^verbatim>\<open>t - DT + k * DT / REFINE\<close>: Python reads it as
  \<^verbatim>\<open>(t - DT) + ((k * DT) / REFINE)\<close>, each operation a float operation.
\<close>

definition sample_time :: "rat \<Rightarrow> nat \<Rightarrow> rat" where
  "sample_time tm k = fadd (fsub tm DT) (fdiv (fmul (of_nat k) DT) (of_nat REFINE))"

text \<open>Lines 203 to 208, the body of \<^verbatim>\<open>for k in range(REFINE)\<close>.\<close>

definition ik_iteration ::
  "('traj, 'sup, 'tasks, 'rob) placo \<Rightarrow> ('traj, 'sup, 'tasks, 'rob) engine \<Rightarrow> nat
    \<Rightarrow> ('traj, 'sup, 'tasks, 'rob) engine" where
  "ik_iteration env s k =
     (let s1 = (if \<not> petage_de_gueule s
                then s\<lparr>tasks := update_tasks_from_trajectory env (trajectory s)
                                   (sample_time (t s) k) (tasks s),
                       calls := calls s @ [Update_tasks_from_trajectory (sample_time (t s) k)]\<rparr>
                else s);
          s2 = s1\<lparr>robot := update_kinematics env (robot s1),
                  calls := calls s1 @ [Update_kinematics]\<rparr>
      in s2\<lparr>robot := solve env (tasks s2) (robot s2),
             calls := calls s2 @ [Solve]\<rparr>)"

definition ik_loop ::
  "('traj, 'sup, 'tasks, 'rob) placo \<Rightarrow> ('traj, 'sup, 'tasks, 'rob) engine
    \<Rightarrow> ('traj, 'sup, 'tasks, 'rob) engine" where
  "ik_loop env s = foldl (ik_iteration env) s [0..<REFINE]"

text \<open>
  Lines 217 to 227. The \<^verbatim>\<open>and\<close> of Python asks \<^verbatim>\<open>can_replan_supports\<close> only when the
  cadence test holds. \<^verbatim>\<open>replan_supports\<close> and \<^verbatim>\<open>replan\<close> are called with the clock \<open>t\<close>;
  \<^verbatim>\<open>replan\<close> gets the new supports and the old trajectory.
\<close>

definition replan_due :: "('traj, 'sup, 'tasks, 'rob) placo \<Rightarrow> ('traj, 'sup, 'tasks, 'rob) engine \<Rightarrow> bool" where
  "replan_due env s \<longleftrightarrow> fmul replan_timesteps (parameters_dt env) < fsub (t s) (last_replan s)"

definition replan_step ::
  "('traj, 'sup, 'tasks, 'rob) placo \<Rightarrow> ('traj, 'sup, 'tasks, 'rob) engine
    \<Rightarrow> ('traj, 'sup, 'tasks, 'rob) engine" where
  "replan_step env s =
     (if replan_due env s
      then (if can_replan_supports env (trajectory s) (t s)
            then (let sp = replan_supports env (planner s) (trajectory s) (t s)
                  in s\<lparr>last_replan := t s,
                        supports := sp,
                        trajectory := replan env sp (trajectory s) (t s),
                        calls := calls s @ [Can_replan_supports (t s), Replan_supports (t s),
                                            Replan (t s)]\<rparr>)
            else s\<lparr>calls := calls s @ [Can_replan_supports (t s)]\<rparr>)
      else s)"

text \<open>The dictionary \<^verbatim>\<open>angles\<close> of lines 271 to 285, as the list of its values.\<close>

definition joint_names :: "string list" where
  "joint_names =
     [''right_hip_yaw'', ''right_hip_roll'', ''right_hip_pitch'', ''right_knee'', ''right_ankle'',
      ''left_hip_yaw'', ''left_hip_roll'', ''left_hip_pitch'', ''left_knee'', ''left_ankle'',
      ''neck_pitch'', ''head_pitch'', ''head_yaw'']"

definition angles :: "('traj, 'sup, 'tasks, 'rob) placo \<Rightarrow> 'rob \<Rightarrow> rat list" where
  "angles env rb = map (get_joint env rb) joint_names"

text \<open>
  Lines 241 to 251 and 254 to 268: the PyBullet back end gets the joints and ticks; the
  MeshCat branch only draws, and is left out with the other drawing calls. The test
  \<^verbatim>\<open>t < -2\<close> of line 242 guards a call that places the simulated robot and writes no
  variable of the loop.
\<close>

definition display_step ::
  "args \<Rightarrow> ('traj, 'sup, 'tasks, 'rob) engine \<Rightarrow> ('traj, 'sup, 'tasks, 'rob) engine" where
  "display_step a s =
     (if args_pybullet a then s\<lparr>calls := calls s @ [Sim_set_joints, Sim_tick]\<rparr> else s)"

text \<open>
  Lines 286 to 296: the joint targets go to the back end. \<^verbatim>\<open>hwi\<close> and
  \<^verbatim>\<open>bdx_mujoco_server\<close> are bound only if the set-up chose them; a foot that reports
  contact has its timer set to \<^verbatim>\<open>0.0\<close>.
\<close>

definition send_step ::
  "('traj, 'sup, 'tasks, 'rob) placo \<Rightarrow> args \<Rightarrow> tick_input \<Rightarrow> ('traj, 'sup, 'tasks, 'rob) engine
    \<Rightarrow> py_error + ('traj, 'sup, 'tasks, 'rob) engine" where
  "send_step env a inp s =
     (if args_robot a
      then (if bound a = Some Hwi
            then Inr (s\<lparr>calls := calls s @ [Hwi_set_position_all (angles env (robot s))]\<rparr>)
            else Inl NameError)
      else if args_mujoco a
      then (if bound a = Some Server
            then (let (right_contact, left_contact) = feet_contact inp;
                      s1 = (if left_contact then s\<lparr>time_since_last_left_contact := Some 0\<rparr> else s);
                      s2 = (if right_contact then s1\<lparr>time_since_last_right_contact := Some 0\<rparr> else s1)
                  in Inr (s2\<lparr>calls := calls s2 @ [Get_feet_contact, Send_action (angles env (robot s2))]\<rparr>))
            else Inl NameError)
      else Inr s)"

text \<open>
  Lines 298 to 308: the loss-of-footing test and the advance of both timers. Reading an
  unbound timer raises \<^verbatim>\<open>NameError\<close>; \<^verbatim>\<open>or\<close> reads the right timer only when the left one
  does not exceed the duration.
\<close>

definition fault_step ::
  "('traj, 'sup, 'tasks, 'rob) engine \<Rightarrow> py_error + ('traj, 'sup, 'tasks, 'rob) engine" where
  "fault_step s =
     (case time_since_last_left_contact s of
        None \<Rightarrow> Inl NameError
      | Some l \<Rightarrow>
          if single_support_duration < l
          then (case time_since_last_right_contact s of
                  None \<Rightarrow> Inl NameError
                | Some r \<Rightarrow>
                    Inr (s\<lparr>petage_de_gueule := True,
                           time_since_last_left_contact := Some (fadd l DT),
                           time_since_last_right_contact := Some (fadd r DT)\<rparr>))
          else (case time_since_last_right_contact s of
                  None \<Rightarrow> Inl NameError
                | Some r \<Rightarrow>
                    Inr (s\<lparr>petage_de_gueule := (single_support_duration < r),
                           time_since_last_left_contact := Some (fadd l DT),
                           time_since_last_right_contact := Some (fadd r DT)\<rparr>)))"

text \<open>
  Lines 310 to 317: both branches set \<^verbatim>\<open>got_input\<close>; a pressed key sets the forward step to
  \<^verbatim>\<open>0.05\<close>, no key sets the whole step pattern to \<^verbatim>\<open>0\<close>.
\<close>

definition input_step ::
  "tick_input \<Rightarrow> ('traj, 'sup, 'tasks, 'rob) engine \<Rightarrow> ('traj, 'sup, 'tasks, 'rob) engine" where
  "input_step inp s =
     (if key_pressed inp
      then s\<lparr>got_input := True, d_x := round_double (5 / 100)\<rparr>
      else s\<lparr>got_input := True, d_x := 0, d_y := 0, d_theta := 0\<rparr>)"

text \<open>Lines 270 to 317, the block under \<^verbatim>\<open>if args.robot or args.mujoco\<close>.\<close>

definition actuate_step ::
  "('traj, 'sup, 'tasks, 'rob) placo \<Rightarrow> args \<Rightarrow> tick_input \<Rightarrow> ('traj, 'sup, 'tasks, 'rob) engine
    \<Rightarrow> py_error + ('traj, 'sup, 'tasks, 'rob) engine" where
  "actuate_step env a inp s =
     (if args_robot a \<or> args_mujoco a
      then (case send_step env a inp s of
              Inl e \<Rightarrow> Inl e
            | Inr s1 \<Rightarrow>
                (case fault_step s1 of
                   Inl e \<Rightarrow> Inl e
                 | Inr s2 \<Rightarrow> Inr (input_step inp s2)))
      else Inr s)"

text \<open>
  Lines 197 to 319: the body of \<^verbatim>\<open>while True\<close> up to \<^verbatim>\<open>t += DT\<close>. The clock advances after
  everything else, whatever \<open>petage_de_gueule\<close> is.
\<close>

definition tick_body ::
  "('traj, 'sup, 'tasks, 'rob) placo \<Rightarrow> args \<Rightarrow> tick_input \<Rightarrow> ('traj, 'sup, 'tasks, 'rob) engine
    \<Rightarrow> py_error + ('traj, 'sup, 'tasks, 'rob) engine" where
  "tick_body env a inp s =
     (case actuate_step env a inp
             (display_step a (replan_step env (ik_loop env (configure_step s)))) of
        Inl e \<Rightarrow> Inl e
      | Inr s1 \<Rightarrow> Inr (s1\<lparr>t := fadd (t s1) DT\<rparr>))"

text \<open>
  Lines 321 and 322, \<^verbatim>\<open>while time.time() < start_t + t: time.sleep(1e-5)\<close>. The loop reads
  the clock before every test. \<open>pace target cs\<close> takes the readings \<open>cs\<close> in order and returns
  the reading at which the loop ended together with the number of sleeps; it is \<open>None\<close>
  when the readings run out while the loop still sleeps.
\<close>

fun pace :: "rat \<Rightarrow> rat list \<Rightarrow> (rat \<times> nat) option" where
  "pace target [] = None"
| "pace target (c # cs) =
     (if c < target
      then (case pace target cs of None \<Rightarrow> None | Some (c', n) \<Rightarrow> Some (c', Suc n))
      else Some (c, 0))"

text \<open>
  One whole iteration, for the value \<open>start_t\<close> that line 189 read from the clock: \<open>None\<close>
  when the pacing loop does not return within the clock readings given, otherwise the
  exception raised or the variables at the end of the iteration.
\<close>

definition tick ::
  "('traj, 'sup, 'tasks, 'rob) placo \<Rightarrow> args \<Rightarrow> rat \<Rightarrow> tick_input
    \<Rightarrow> ('traj, 'sup, 'tasks, 'rob) engine
    \<Rightarrow> (py_error + ('traj, 'sup, 'tasks, 'rob) engine) option" where
  "tick env a start_t inp s =
     (case tick_body env a inp s of
        Inl e \<Rightarrow> Some (Inl e)
      | Inr s1 \<Rightarrow>
          (case pace (fadd start_t (t s1)) (clock inp) of
             None \<Rightarrow> None
           | Some r \<Rightarrow> Some (Inr s1)))"

text \<open>The loop over a list of inputs, one for each iteration; an exception ends it.\<close>

fun run ::
  "('traj, 'sup, 'tasks, 'rob) placo \<Rightarrow> args \<Rightarrow> rat \<Rightarrow> tick_input list
    \<Rightarrow> ('traj, 'sup, 'tasks, 'rob) engine
    \<Rightarrow> (py_error + ('traj, 'sup, 'tasks, 'rob) engine) option" where
  "run env a start_t [] s = Some (Inr s)"
| "run env a start_t (inp # inps) s =
     (case tick env a start_t inp s of
        None \<Rightarrow> None
      | Some (Inl e) \<Rightarrow> Some (Inl e)
      | Some (Inr s1) \<Rightarrow> run env a start_t inps s1)"

subsection \<open>The calls of one iteration\<close>

text \<open>
  The calls that the parts of one iteration make, as lists: the \<^verbatim>\<open>configure\<close> call, the
  calls of the sub-iteration \<open>k\<close> of the solver loop (for the value of \<open>petage_de_gueule\<close>
  and the clock), the calls of the replanning block, and the calls to the back end with
  the joint targets.
\<close>

definition configure_calls :: "('traj, 'sup, 'tasks, 'rob) engine \<Rightarrow> call list" where
  "configure_calls s =
     (if got_input s then [Configure (d_x s) (d_y s) (d_theta s) (nb_steps s)] else [])"

definition sub_iteration_calls :: "bool \<Rightarrow> rat \<Rightarrow> nat \<Rightarrow> call list" where
  "sub_iteration_calls faulted tm k =
     (if faulted then [] else [Update_tasks_from_trajectory (sample_time tm k)])
     @ [Update_kinematics, Solve]"

definition replan_calls ::
  "('traj, 'sup, 'tasks, 'rob) placo \<Rightarrow> ('traj, 'sup, 'tasks, 'rob) engine \<Rightarrow> call list" where
  "replan_calls env s =
     (if replan_due env s
      then (if can_replan_supports env (trajectory s) (t s)
            then [Can_replan_supports (t s), Replan_supports (t s), Replan (t s)]
            else [Can_replan_supports (t s)])
      else [])"

definition backend_calls :: "('traj, 'sup, 'tasks, 'rob) placo \<Rightarrow> args \<Rightarrow> 'rob \<Rightarrow> call list" where
  "backend_calls env a rb =
     (if args_pybullet a then [Sim_set_joints, Sim_tick] else [])
     @ (if args_robot a then [Hwi_set_position_all (angles env rb)]
        else if args_mujoco a then [Get_feet_contact, Send_action (angles env rb)]
        else [])"

subsection \<open>A stand-in for placo\<close>

text \<open>
  A small instance of the library for the examples: the trajectory and the supports are
  counters that a replan advances, the task targets are the time of the last trajectory
  sample, the robot state counts the calls of \<^verbatim>\<open>solve\<close>; replanning is always allowed and
  \<^verbatim>\<open>parameters.dt()\<close> is \<^verbatim>\<open>0.02\<close>.
\<close>

definition counting_placo :: "(nat, nat, rat option, nat) placo" where
  "counting_placo =
     \<lparr>update_tasks_from_trajectory = (\<lambda>traj tm tk. Some tm),
      update_kinematics = (\<lambda>rb. rb),
      solve = (\<lambda>tk rb. Suc rb),
      can_replan_supports = (\<lambda>traj tm. True),
      replan_supports = (\<lambda>cfg traj tm. Suc traj),
      replan = (\<lambda>sp traj tm. sp),
      get_joint = (\<lambda>rb name. of_nat rb),
      parameters_dt = round_double (2 / 100)\<rparr>"

definition mujoco_args :: args where
  "mujoco_args = \<lparr>args_pybullet = False, args_meshcat = False, args_robot = False, args_mujoco = True\<rparr>"

text \<open>
  A state and an input for the examples: the clock stands at one second, both feet are in
  contact and no key is pressed.
\<close>

definition example_engine :: "(nat, nat, rat option, nat) engine" where
  "example_engine =
     \<lparr>t = 1, last_replan = 0, petage_de_gueule = False, got_input = False,
      d_x = 0, d_y = 0, d_theta = 0, nb_steps = 5, planner = (0, 0, 0, 5),
      time_since_last_left_contact = Some 0, time_since_last_right_contact = Some 0,
      trajectory = 0, supports = 0, tasks = Some 7, robot = 0,
      solver_dt = fdiv DT (of_nat REFINE), calls = []\<rparr>"

definition example_input :: tick_input where
  "example_input = \<lparr>feet_contact = (True, True), key_pressed = False, clock = [0]\<rparr>"

text \<open>
  The state in which the loop is entered with \<^verbatim>\<open>--mujoco\<close>, for the stand-in library:
  trajectory and supports not yet replanned, no task target sampled, no call of \<^verbatim>\<open>solve\<close>.
\<close>

definition entry_engine :: "(nat, nat, rat option, nat) engine" where
  "entry_engine =
     \<lparr>t = initial_delay, last_replan = 0, petage_de_gueule = False, got_input = False,
      d_x = round_double (1 / 10), d_y = 0, d_theta = 0, nb_steps = 5,
      planner = (round_double (1 / 10), 0, 0, 5),
      time_since_last_left_contact = Some 0, time_since_last_right_contact = Some 0,
      trajectory = 0, supports = 0, tasks = None, robot = 0,
      solver_dt = fdiv DT (of_nat REFINE), calls = []\<rparr>"

subsection \<open>Contact timers and the condition of the specification\<close>

text \<open>
  The value of a contact timer \<open>n\<close> iterations after it was last \<^verbatim>\<open>0.0\<close>: line 307 or
  308 has added \<open>DT\<close> to it \<open>n\<close> times.
\<close>

fun timer :: "nat \<Rightarrow> rat" where
  "timer 0 = 0"
| "timer (Suc n) = fadd (timer n) DT"

text \<open>
  The specification words the transition to \<open>FAULTED\<close> with the support phase of the
  trajectory: a timer exceeds the duration for a foot while the engine is in single support
  on that side. This is the condition as the specification states it, to be compared with
  the test of lines 298 to 301.
\<close>

datatype support_phase = Single_left | Single_right | Double

definition specified_fault :: "support_phase \<Rightarrow> rat \<Rightarrow> rat \<Rightarrow> bool" where
  "specified_fault phase l r \<longleftrightarrow>
     (phase = Single_left \<and> single_support_duration < l)
     \<or> (phase = Single_right \<and> single_support_duration < r)"

section \<open>The footstep planner\<close>

text \<open>
  The script only calls the planner: \<^verbatim>\<open>FootstepsPlannerRepetitive\<close> belongs to the placo
  library and its code is not in the repository. The definitions of this section follow
  section 4.2 of the specification instead.
\<close>

datatype side = Left | Right

fun other_side :: "side \<Rightarrow> side" where
  "other_side Left = Right"
| "other_side Right = Left"

text \<open>
  Modelled from the spec: the footstep placement of \<^verbatim>\<open>FootstepsPlannerRepetitive.plan\<close>,
  which is missing from the sources. A footstep is a side tag with a pose. The footsteps are
  placed one after the other on alternating sides; each placement rule computes the new
  pose of the stepping foot from the last pose of that foot and the last pose of the other
  foot.
\<close>

fun place_alternately ::
  "(side \<Rightarrow> 'pose \<Rightarrow> 'pose \<Rightarrow> 'pose) list \<Rightarrow> side \<Rightarrow> 'pose \<Rightarrow> 'pose \<Rightarrow> (side \<times> 'pose) list" where
  "place_alternately [] sd own other = []"
| "place_alternately (rule # rules) sd own other =
     (sd, rule sd own other) # place_alternately rules (other_side sd) other (rule sd own other)"

text \<open>
  Modelled from the spec: \<^verbatim>\<open>plan(starting_side, current_left_pose, current_right_pose)\<close>
  of the planner that is missing from the sources. Planning begins with the foot opposite
  \<open>starting_side\<close>; \<open>num_steps\<close> footsteps compose the previous pose of the same foot with
  the per-step displacement (\<open>displace\<close>), then \<open>closing_steps\<close> closing footsteps bring the
  stepping foot beside the other one (\<open>beside\<close>). The displacement, the closing placement
  and the constant \<open>closing_steps\<close> are parameters.
\<close>

definition plan ::
  "('pose \<Rightarrow> 'pose) \<Rightarrow> (side \<Rightarrow> 'pose \<Rightarrow> 'pose) \<Rightarrow> nat \<Rightarrow> nat
    \<Rightarrow> side \<Rightarrow> 'pose \<Rightarrow> 'pose \<Rightarrow> (side \<times> 'pose) list" where
  "plan displace beside num_steps closing_steps starting_side current_left_pose current_right_pose =
     place_alternately
       (replicate num_steps (\<lambda>sd own other. displace own)
        @ replicate closing_steps (\<lambda>sd own other. beside sd other))
       (other_side starting_side)
       (if starting_side = Left then current_right_pose else current_left_pose)
       (if starting_side = Left then current_left_pose else current_right_pose)"

section \<open>Properties of float rounding\<close>

text \<open>
  Rounding moves a value by at most half a unit in the last place: at most \<open>2 ^ - 53\<close> of
  its magnitude, or \<open>2 ^ - 1075\<close> for the smallest magnitudes.
\<close>

lemma pow2_powi: "pow2 e = 2 powi e"
  by (simp add: pow2_def power_int_def inverse_eq_divide power_one_over)

lemma pow2_pos: "0 < pow2 e"
  by (simp add: pow2_powi)

lemma pow2_add: "pow2 (a + b) = pow2 a * pow2 b"
  by (simp add: pow2_powi power_int_add)

lemma pow2_mono: "a \<le> b \<Longrightarrow> pow2 a \<le> pow2 b"
  by (simp add: pow2_powi power_int_increasing)

lemma pow2_nat: "pow2 (int n) = 2 ^ n"
  by (simp add: pow2_def)

lemma pow2_neg_nat: "pow2 (- int n) = 1 / 2 ^ n"
  by (simp add: pow2_powi power_int_minus inverse_eq_divide)

lemma pow2_ilog2_le:
  assumes "0 < a"
  shows "pow2 (ilog2 a) \<le> a"
proof (cases "1 \<le> a")
  case True
  then have pos: "0 < \<lfloor>a\<rfloor>" by simp
  have nn: "0 \<le> bitlen \<lfloor>a\<rfloor> - 1"
    using pos bitlen_bounds[OF pos] bitlen_nonneg[of "\<lfloor>a\<rfloor>"]
    by (smt (verit) bitlen_eq_zero_iff)
  have "2 ^ nat (bitlen \<lfloor>a\<rfloor> - 1) \<le> \<lfloor>a\<rfloor>"
    using bitlen_bounds[OF pos] by simp
  then have "(of_int (2 ^ nat (bitlen \<lfloor>a\<rfloor> - 1)) :: rat) \<le> of_int \<lfloor>a\<rfloor>"
    by (simp only: of_int_le_iff)
  then have "(2 :: rat) ^ nat (bitlen \<lfloor>a\<rfloor> - 1) \<le> of_int \<lfloor>a\<rfloor>"
    by simp
  also have "\<dots> \<le> a" by simp
  finally show ?thesis
    using True nn by (simp add: ilog2_def pow2_def)
next
  case False
  let ?c = "\<lceil>1 / a\<rceil> - 1"
  from False assms have x: "1 < 1 / a" by simp
  then have cpos: "0 < ?c" by (simp add: less_ceiling_iff)
  have "1 / a \<le> of_int \<lceil>1 / a\<rceil>" by simp
  also have "\<lceil>1 / a\<rceil> \<le> 2 ^ nat (bitlen ?c)"
    using bitlen_bounds[OF cpos] by simp
  finally have "1 / a \<le> 2 ^ nat (bitlen ?c)"
    by simp
  then have "1 / 2 ^ nat (bitlen ?c) \<le> a"
    using assms by (simp add: field_simps)
  moreover have "pow2 (- bitlen ?c) = 1 / 2 ^ nat (bitlen ?c)"
    using bitlen_nonneg[of ?c] pow2_neg_nat[of "nat (bitlen ?c)"] by simp
  ultimately show ?thesis
    using False by (simp add: ilog2_def)
qed

lemma round_half_even_error: "\<bar>of_int (round_half_even r) - r\<bar> \<le> 1 / 2"
proof -
  define d where "d = r - of_int \<lfloor>r\<rfloor>"
  have d: "0 \<le> d" "d < 1"
    unfolding d_def by linarith+
  have r: "r = of_int \<lfloor>r\<rfloor> + d"
    by (simp add: d_def)
  consider "d < 1 / 2" | "1 / 2 < d" | "d = 1 / 2" by linarith
  then show ?thesis
  proof cases
    case 1
    then have "round_half_even r = \<lfloor>r\<rfloor>"
      by (simp add: round_half_even_def Let_def d_def)
    with d 1 show ?thesis by (simp add: d_def)
  next
    case 2
    then have "round_half_even r = \<lfloor>r\<rfloor> + 1"
      by (simp add: round_half_even_def Let_def d_def)
    with d 2 show ?thesis by (simp add: d_def)
  next
    case 3
    then have "round_half_even r = \<lfloor>r\<rfloor> \<or> round_half_even r = \<lfloor>r\<rfloor> + 1"
      by (simp add: round_half_even_def Let_def d_def)
    with d 3 show ?thesis by (auto simp: d_def)
  qed
qed

lemma round_double_error:
  assumes "q \<noteq> 0"
  shows "\<bar>round_double q - q\<bar> \<le> pow2 (max (ilog2 \<bar>q\<bar> - 52) (- 1074)) / 2"
proof -
  let ?e = "max (ilog2 \<bar>q\<bar> - 52) (- 1074)"
  have p: "0 < pow2 ?e" by (rule pow2_pos)
  have "round_double q - q = (of_int (round_half_even (q / pow2 ?e)) - q / pow2 ?e) * pow2 ?e"
    using assms p by (simp add: round_double_def Let_def field_simps)
  then have "\<bar>round_double q - q\<bar> = \<bar>of_int (round_half_even (q / pow2 ?e)) - q / pow2 ?e\<bar> * pow2 ?e"
    using p by (simp add: abs_mult)
  also have "\<dots> \<le> (1 / 2) * pow2 ?e"
    using round_half_even_error[of "q / pow2 ?e"] p by (intro mult_right_mono) simp_all
  finally show ?thesis by simp
qed

lemma round_double_error_bound:
  "\<bar>round_double q - q\<bar> \<le> max (\<bar>q\<bar> / 2 ^ 53) (1 / 2 ^ 1075)"
proof (cases "q = 0")
  case True
  then show ?thesis by (simp add: round_double_def)
next
  case False
  let ?k = "ilog2 \<bar>q\<bar> - 52"
  have a: "0 < \<bar>q\<bar>" using False by simp
  have "pow2 ?k = pow2 (ilog2 \<bar>q\<bar>) * pow2 (- 52)"
    using pow2_add[of "ilog2 \<bar>q\<bar>" "- 52"] by simp
  also have "\<dots> \<le> \<bar>q\<bar> * pow2 (- 52)"
    using pow2_ilog2_le[OF a] pow2_pos[of "- 52"] by (intro mult_right_mono) simp_all
  finally have k: "pow2 ?k / 2 \<le> \<bar>q\<bar> / 2 ^ 53"
    by (simp add: pow2_def)
  have m: "pow2 (- 1074) / 2 = 1 / 2 ^ 1075"
    by (simp add: pow2_def)
  have "pow2 (max ?k (- 1074)) / 2 \<le> max (\<bar>q\<bar> / 2 ^ 53) (1 / 2 ^ 1075)"
    using k m by (cases "?k \<le> - 1074") (simp_all add: max_def)
  with round_double_error[OF False] show ?thesis by linarith
qed

lemma round_double_near:
  assumes "\<bar>q\<bar> \<le> b" and "1 / 2 ^ 1022 \<le> b"
  shows "\<bar>round_double q - q\<bar> \<le> b / 2 ^ 53"
proof -
  have "(1 :: rat) / 2 ^ 1075 = (1 / 2 ^ 1022) / 2 ^ 53"
    by (simp add: power_add[symmetric])
  also have "\<dots> \<le> b / 2 ^ 53"
    using assms(2) by (intro divide_right_mono) simp_all
  finally have "(1 :: rat) / 2 ^ 1075 \<le> b / 2 ^ 53" .
  moreover have "\<bar>q\<bar> / 2 ^ 53 \<le> b / 2 ^ 53"
    using assms(1) by (intro divide_right_mono) simp_all
  ultimately show ?thesis
    using round_double_error_bound[of q] by linarith
qed

lemma tiny_le_one: "(1 :: rat) / 2 ^ 1022 \<le> 1"
  by (simp add: field_simps)

section \<open>Properties of the IMU delay simulator\<close>

text \<open>
  C10. \<^verbatim>\<open>get\<close> before any \<^verbatim>\<open>push\<close>: \<open>t0\<close> is still \<^verbatim>\<open>None\<close>, the subtraction raises, and
  the call returns neither the zeroed value nor a queued one. This holds for the fresh
  simulator and for every state whose \<open>t0\<close> is \<^verbatim>\<open>None\<close>, whatever its queues hold.
\<close>

theorem get_before_first_push:
  "get now (ImuDelaySimulator_init d) = Inl TypeError
   \<and> get now (self\<lparr>t0 := None\<rparr>) = Inl TypeError
   \<and> run_calls (ImuDelaySimulator_init d) (Get now # cs) = Inl TypeError"
  by (simp add: get_def ImuDelaySimulator_init_def)







lemma push_all_fields:
  "rot (push_all s ws) = rot s @ map fst ws"
  "ang_rot (push_all s ws) = ang_rot s @ map (fst \<circ> snd) ws"
  "delay_ms (push_all s ws) = delay_ms s"
  "t0 s = Some t1 \<Longrightarrow> t0 (push_all s ws) = Some t1"
  unfolding push_all_def
  by (induction ws arbitrary: s) (auto simp: push_def)

lemma push_all_init:
  "push_all (ImuDelaySimulator_init d) ((r1, a1, t1) # ws) =
     \<lparr>delay_ms = d, rot = r1 # map fst ws, ang_rot = a1 # map (fst \<circ> snd) ws, t0 = Some t1\<rparr>"
proof -
  have "push_all (ImuDelaySimulator_init d) ((r1, a1, t1) # ws) =
      push_all (push (ImuDelaySimulator_init d) r1 a1 t1) ws"
    by (simp add: push_all_def)
  moreover have "t0 (push (ImuDelaySimulator_init d) r1 a1 t1) = Some t1"
    by (simp add: push_def ImuDelaySimulator_init_def)
  ultimately show ?thesis
    using push_all_fields(1,2,3)[of "push (ImuDelaySimulator_init d) r1 a1 t1" ws]
      push_all_fields(4)[of "push (ImuDelaySimulator_init d) r1 a1 t1" t1 ws]
    by (simp add: push_def ImuDelaySimulator_init_def)
qed

lemma drain_queue:
  assumes "length nows = length rs" and "length as = length rs"
    and "\<forall>now\<in>set nows. \<not> delay_running now t1 d"
  shows "run_calls \<lparr>delay_ms = d, rot = rs, ang_rot = as, t0 = Some t1\<rparr> (map Get nows) =
     Inr (map (Pair True) (zip rs as), \<lparr>delay_ms = d, rot = [], ang_rot = [], t0 = Some t1\<rparr>)"
  using assms
proof (induction nows arbitrary: rs as)
  case Nil
  then show ?case by simp
next
  case (Cons now nows)
  then obtain r rs' a as' where rs: "rs = r # rs'" and as: "as = a # as'"
    by (cases rs; cases as) auto
  have g: "get now \<lparr>delay_ms = d, rot = rs, ang_rot = as, t0 = Some t1\<rparr> =
      Inr ((r, a), \<lparr>delay_ms = d, rot = rs', ang_rot = as', t0 = Some t1\<rparr>)"
    using Cons.prems(3) by (simp add: get_def rs as)
  have "run_calls \<lparr>delay_ms = d, rot = rs', ang_rot = as', t0 = Some t1\<rparr> (map Get nows) =
     Inr (map (Pair True) (zip rs' as'), \<lparr>delay_ms = d, rot = [], ang_rot = [], t0 = Some t1\<rparr>)"
    using Cons.prems by (intro Cons.IH) (simp_all add: rs as)
  with g show ?case by (simp add: rs as)
qed

text \<open>
  C1 fails as stated: a value is not withheld until its own timestamp plus the delay. The
  simulator keeps the first timestamp only, so once \<open>delay_ms\<close> has passed since the first
  push, every \<^verbatim>\<open>get\<close> returns the oldest queued value at once. Below, the delay is 1 ms, the
  second value is pushed at time 10 and a \<^verbatim>\<open>get\<close> at time 10 already returns it, although
  the test of the source, taken with the second timestamp, says that the delay still runs.
\<close>

theorem delay_per_value_counterexample:
  "run_calls (ImuDelaySimulator_init 1)
     [Push [1, 0, 0, 0] [0, 0, 1] 0, Push [0, 1, 0, 0] [0, 1, 0] 10, Get 10, Get 10] =
     Inr ([(True, ([1, 0, 0, 0], [0, 0, 1])), (True, ([0, 1, 0, 0], [0, 1, 0]))],
          \<lparr>delay_ms = 1, rot = [], ang_rot = [], t0 = Some 0\<rparr>)
   \<and> delay_running 10 10 1
   \<and> ([0, 1, 0, 0], [0, 1, 0]) \<noteq> zeroed"
  by code_simp

text \<open>
  C1, amended. Push any values \<open>v1..vn\<close> (\<open>n \<ge> 1\<close>), the first at timestamp \<open>t1\<close>. Then
  \<open>n\<close> calls of \<^verbatim>\<open>get\<close>, each at a clock reading for which the delay since \<open>t1\<close> has run
  out, raise nothing, return exactly \<open>v1..vn\<close> in that order and leave the queue empty; and
  every \<^verbatim>\<open>get\<close> made while the delay since \<open>t1\<close> still runs returns the zeroed value and
  withholds all queued values. The timestamps after the first play no part.
\<close>

theorem delay_round_trip:
  assumes "length nows = Suc (length ws)"
    and "\<forall>now\<in>set nows. \<not> delay_running now t1 d"
  shows "run_calls (push_all (ImuDelaySimulator_init d) ((r1, a1, t1) # ws)) (map Get nows) =
       Inr (map (\<lambda>w. (True, pushed_value w)) ((r1, a1, t1) # ws),
            \<lparr>delay_ms = d, rot = [], ang_rot = [], t0 = Some t1\<rparr>)
    \<and> (\<forall>now. delay_running now t1 d \<longrightarrow>
          get now (push_all (ImuDelaySimulator_init d) ((r1, a1, t1) # ws)) =
            Inr (zeroed, push_all (ImuDelaySimulator_init d) ((r1, a1, t1) # ws)))"
proof -
  have z: "zip (r1 # map fst ws) (a1 # map (fst \<circ> snd) ws) = map pushed_value ((r1, a1, t1) # ws)"
    by (induction ws) auto
  have "run_calls \<lparr>delay_ms = d, rot = r1 # map fst ws, ang_rot = a1 # map (fst \<circ> snd) ws, t0 = Some t1\<rparr>
      (map Get nows) =
     Inr (map (Pair True) (zip (r1 # map fst ws) (a1 # map (fst \<circ> snd) ws)),
          \<lparr>delay_ms = d, rot = [], ang_rot = [], t0 = Some t1\<rparr>)"
    using assms by (intro drain_queue) simp_all
  then have drain: "run_calls (push_all (ImuDelaySimulator_init d) ((r1, a1, t1) # ws)) (map Get nows) =
       Inr (map (\<lambda>w. (True, pushed_value w)) ((r1, a1, t1) # ws),
            \<lparr>delay_ms = d, rot = [], ang_rot = [], t0 = Some t1\<rparr>)"
    unfolding push_all_init z by (simp add: comp_def)
  have held: "\<forall>now. delay_running now t1 d \<longrightarrow>
          get now (push_all (ImuDelaySimulator_init d) ((r1, a1, t1) # ws)) =
            Inr (zeroed, push_all (ImuDelaySimulator_init d) ((r1, a1, t1) # ws))"
    unfolding push_all_init by (simp add: get_def)
  from drain held show ?thesis by blast
qed

theorem delay_round_trip_witness:
  "length [1, 2 :: rat] = Suc (length [([0, 1, 0, 0], [0, 1, 0], 1 / 2 :: rat)])
   \<and> \<not> delay_running 1 0 1 \<and> \<not> delay_running 2 0 1
   \<and> run_calls (push_all (ImuDelaySimulator_init 1)
         [([1, 0, 0, 0], [0, 0, 1], 0), ([0, 1, 0, 0], [0, 1, 0], 1 / 2)]) [Get 1, Get 2] =
       Inr ([(True, ([1, 0, 0, 0], [0, 0, 1])), (True, ([0, 1, 0, 0], [0, 1, 0]))],
            \<lparr>delay_ms = 1, rot = [], ang_rot = [], t0 = Some 0\<rparr>)
   \<and> delay_running 0 0 1
   \<and> get 0 (push_all (ImuDelaySimulator_init 1)
         [([1, 0, 0, 0], [0, 0, 1], 0), ([0, 1, 0, 0], [0, 1, 0], 1 / 2)]) =
       Inr (zeroed, push_all (ImuDelaySimulator_init 1)
         [([1, 0, 0, 0], [0, 0, 1], 0), ([0, 1, 0, 0], [0, 1, 0], 1 / 2)])"
proof -
  have len: "length [1, 2 :: rat] = Suc (length [([0, 1, 0, 0], [0, 1, 0], 1 / 2 :: rat)])"
    by simp
  have l1: "\<not> delay_running 1 0 1" and l2: "\<not> delay_running 2 0 1"
    by code_simp+
  have late: "\<forall>now\<in>set [1, 2 :: rat]. \<not> delay_running now 0 1"
    using l1 l2 by simp
  have early: "delay_running 0 0 1"
    by code_simp
  note rt = delay_round_trip[OF len late, of "[1, 0, 0, 0]" "[0, 0, 1]"]
  from rt have a: "run_calls (push_all (ImuDelaySimulator_init 1)
         [([1, 0, 0, 0], [0, 0, 1], 0), ([0, 1, 0, 0], [0, 1, 0], 1 / 2)]) [Get 1, Get 2] =
       Inr ([(True, ([1, 0, 0, 0], [0, 0, 1])), (True, ([0, 1, 0, 0], [0, 1, 0]))],
            \<lparr>delay_ms = 1, rot = [], ang_rot = [], t0 = Some 0\<rparr>)"
    by simp
  from rt early have b: "get 0 (push_all (ImuDelaySimulator_init 1)
         [([1, 0, 0, 0], [0, 0, 1], 0), ([0, 1, 0, 0], [0, 1, 0], 1 / 2)]) =
       Inr (zeroed, push_all (ImuDelaySimulator_init 1)
         [([1, 0, 0, 0], [0, 0, 1], 0), ([0, 1, 0, 0], [0, 1, 0], 1 / 2)])"
    by blast
  from len l1 l2 a early b show ?thesis
    by blast
qed

section \<open>Properties of the walk engine\<close>

subsection \<open>What each part of an iteration leaves unchanged\<close>

lemma configure_step_frame:
  "t (configure_step s) = t s"
  "last_replan (configure_step s) = last_replan s"
  "petage_de_gueule (configure_step s) = petage_de_gueule s"
  "time_since_last_left_contact (configure_step s) = time_since_last_left_contact s"
  "time_since_last_right_contact (configure_step s) = time_since_last_right_contact s"
  "trajectory (configure_step s) = trajectory s"
  "supports (configure_step s) = supports s"
  "tasks (configure_step s) = tasks s"
  "robot (configure_step s) = robot s"
  "solver_dt (configure_step s) = solver_dt s"
  by (simp_all add: configure_step_def)

lemma ik_iteration_frame:
  "t (ik_iteration env s k) = t s"
  "last_replan (ik_iteration env s k) = last_replan s"
  "petage_de_gueule (ik_iteration env s k) = petage_de_gueule s"
  "got_input (ik_iteration env s k) = got_input s"
  "planner (ik_iteration env s k) = planner s"
  "time_since_last_left_contact (ik_iteration env s k) = time_since_last_left_contact s"
  "time_since_last_right_contact (ik_iteration env s k) = time_since_last_right_contact s"
  "trajectory (ik_iteration env s k) = trajectory s"
  "supports (ik_iteration env s k) = supports s"
  "solver_dt (ik_iteration env s k) = solver_dt s"
  by (simp_all add: ik_iteration_def Let_def)

lemma ik_iteration_calls:
  "calls (ik_iteration env s k) = calls s @ sub_iteration_calls (petage_de_gueule s) (t s) k"
  by (simp add: ik_iteration_def Let_def sub_iteration_calls_def)

lemma ik_iteration_faulted:
  "petage_de_gueule s \<Longrightarrow> tasks (ik_iteration env s k) = tasks s"
  "petage_de_gueule s \<Longrightarrow>
     robot (ik_iteration env s k) = solve env (tasks s) (update_kinematics env (robot s))"
  by (simp_all add: ik_iteration_def Let_def)

lemma ik_fold_frame:
  "t (foldl (ik_iteration env) s ks) = t s"
  "last_replan (foldl (ik_iteration env) s ks) = last_replan s"
  "petage_de_gueule (foldl (ik_iteration env) s ks) = petage_de_gueule s"
  "got_input (foldl (ik_iteration env) s ks) = got_input s"
  "planner (foldl (ik_iteration env) s ks) = planner s"
  "time_since_last_left_contact (foldl (ik_iteration env) s ks) = time_since_last_left_contact s"
  "time_since_last_right_contact (foldl (ik_iteration env) s ks) = time_since_last_right_contact s"
  "trajectory (foldl (ik_iteration env) s ks) = trajectory s"
  "supports (foldl (ik_iteration env) s ks) = supports s"
  "solver_dt (foldl (ik_iteration env) s ks) = solver_dt s"
  by (induction ks arbitrary: s; simp add: ik_iteration_frame)+

lemma ik_fold_calls:
  "calls (foldl (ik_iteration env) s ks) =
     calls s @ concat (map (sub_iteration_calls (petage_de_gueule s) (t s)) ks)"
  by (induction ks arbitrary: s) (simp_all add: ik_iteration_calls ik_iteration_frame)

lemma ik_fold_faulted:
  "petage_de_gueule s \<Longrightarrow> tasks (foldl (ik_iteration env) s ks) = tasks s"
  by (induction ks arbitrary: s) (simp_all add: ik_iteration_frame ik_iteration_faulted)

lemma replan_step_frame:
  "t (replan_step env s) = t s"
  "petage_de_gueule (replan_step env s) = petage_de_gueule s"
  "got_input (replan_step env s) = got_input s"
  "planner (replan_step env s) = planner s"
  "time_since_last_left_contact (replan_step env s) = time_since_last_left_contact s"
  "time_since_last_right_contact (replan_step env s) = time_since_last_right_contact s"
  "tasks (replan_step env s) = tasks s"
  "robot (replan_step env s) = robot s"
  "solver_dt (replan_step env s) = solver_dt s"
  by (simp_all add: replan_step_def Let_def)

lemma display_step_frame:
  "t (display_step a s) = t s"
  "last_replan (display_step a s) = last_replan s"
  "petage_de_gueule (display_step a s) = petage_de_gueule s"
  "got_input (display_step a s) = got_input s"
  "planner (display_step a s) = planner s"
  "time_since_last_left_contact (display_step a s) = time_since_last_left_contact s"
  "time_since_last_right_contact (display_step a s) = time_since_last_right_contact s"
  "trajectory (display_step a s) = trajectory s"
  "supports (display_step a s) = supports s"
  "tasks (display_step a s) = tasks s"
  "robot (display_step a s) = robot s"
  "solver_dt (display_step a s) = solver_dt s"
  by (simp_all add: display_step_def)

lemma send_step_frame:
  assumes "send_step env a inp s = Inr s'"
  shows "t s' = t s" "last_replan s' = last_replan s"
    "petage_de_gueule s' = petage_de_gueule s" "got_input s' = got_input s"
    "planner s' = planner s" "trajectory s' = trajectory s" "supports s' = supports s"
    "tasks s' = tasks s" "robot s' = robot s" "solver_dt s' = solver_dt s"
  using assms
  by (auto simp: send_step_def Let_def split: if_splits prod.splits)

lemma fault_step_frame:
  assumes "fault_step s = Inr s'"
  shows "t s' = t s" "last_replan s' = last_replan s" "got_input s' = got_input s"
    "planner s' = planner s" "trajectory s' = trajectory s" "supports s' = supports s"
    "tasks s' = tasks s" "robot s' = robot s" "solver_dt s' = solver_dt s" "calls s' = calls s"
  using assms
  by (auto simp: fault_step_def split: option.splits if_splits)

lemma input_step_frame:
  "t (input_step inp s) = t s"
  "last_replan (input_step inp s) = last_replan s"
  "petage_de_gueule (input_step inp s) = petage_de_gueule s"
  "planner (input_step inp s) = planner s"
  "time_since_last_left_contact (input_step inp s) = time_since_last_left_contact s"
  "time_since_last_right_contact (input_step inp s) = time_since_last_right_contact s"
  "trajectory (input_step inp s) = trajectory s"
  "supports (input_step inp s) = supports s"
  "tasks (input_step inp s) = tasks s"
  "robot (input_step inp s) = robot s"
  "solver_dt (input_step inp s) = solver_dt s"
  "calls (input_step inp s) = calls s"
  by (simp_all add: input_step_def)

lemma actuate_step_Inr:
  assumes "actuate_step env a inp s = Inr s'"
  obtains (idle) "\<not> args_robot a" "\<not> args_mujoco a" "s' = s"
  | (sent) s1 s2 where "args_robot a \<or> args_mujoco a" "send_step env a inp s = Inr s1"
      "fault_step s1 = Inr s2" "s' = input_step inp s2"
  using assms unfolding actuate_step_def
  by (auto split: if_splits sum.splits)

lemma actuate_step_frame:
  assumes "actuate_step env a inp s = Inr s'"
  shows "t s' = t s \<and> last_replan s' = last_replan s \<and> planner s' = planner s
    \<and> trajectory s' = trajectory s \<and> supports s' = supports s
    \<and> tasks s' = tasks s \<and> robot s' = robot s \<and> solver_dt s' = solver_dt s"
  using assms
proof (cases rule: actuate_step_Inr)
  case idle
  then show ?thesis by simp
next
  case (sent s1 s2)
  from sent(4) send_step_frame[OF sent(2)] fault_step_frame[OF sent(3)]
  show ?thesis by (simp add: input_step_frame)
qed

text \<open>The iteration up to the actuation block, and what a completed iteration is.\<close>

lemma tick_body_Inr:
  assumes "tick_body env a inp s = Inr s'"
  obtains s1 where
    "actuate_step env a inp (display_step a (replan_step env (ik_loop env (configure_step s)))) = Inr s1"
    "s' = s1\<lparr>t := fadd (t s1) DT\<rparr>"
  using assms unfolding tick_body_def
  by (auto split: sum.splits)


subsection \<open>The calls of a completed iteration\<close>

lemma configure_step_calls: "calls (configure_step s) = calls s @ configure_calls s"
  by (simp add: configure_step_def configure_calls_def)

lemma configure_step_planner:
  "planner (configure_step s) = (if got_input s then (d_x s, d_y s, d_theta s, nb_steps s) else planner s)"
  by (simp add: configure_step_def)

lemma replan_due_cong:
  "t s1 = t s \<Longrightarrow> last_replan s1 = last_replan s \<Longrightarrow> replan_due env s1 = replan_due env s"
  by (simp add: replan_due_def)

lemma replan_calls_cong:
  "t s1 = t s \<Longrightarrow> last_replan s1 = last_replan s \<Longrightarrow> trajectory s1 = trajectory s
    \<Longrightarrow> replan_calls env s1 = replan_calls env s"
  by (simp add: replan_calls_def replan_due_def)

lemma replan_step_calls: "calls (replan_step env s) = calls s @ replan_calls env s"
  by (simp add: replan_step_def replan_calls_def Let_def)

lemma replan_step_done:
  assumes "replan_due env s" and "can_replan_supports env (trajectory s) (t s)"
  shows "last_replan (replan_step env s) = t s"
    and "supports (replan_step env s) = replan_supports env (planner s) (trajectory s) (t s)"
    and "trajectory (replan_step env s) =
      replan env (replan_supports env (planner s) (trajectory s) (t s)) (trajectory s) (t s)"
  using assms by (simp_all add: replan_step_def Let_def)

lemma replan_step_skipped:
  assumes "\<not> (replan_due env s \<and> can_replan_supports env (trajectory s) (t s))"
  shows "last_replan (replan_step env s) = last_replan s"
    and "supports (replan_step env s) = supports s"
    and "trajectory (replan_step env s) = trajectory s"
  using assms by (auto simp: replan_step_def Let_def)

lemma display_step_calls:
  "calls (display_step a s) = calls s @ (if args_pybullet a then [Sim_set_joints, Sim_tick] else [])"
  by (simp add: display_step_def)

lemma send_step_calls:
  assumes "send_step env a inp s = Inr s'" and "args_robot a \<or> args_mujoco a"
  shows "calls s' = calls s @
     (if args_robot a then [Hwi_set_position_all (angles env (robot s))]
      else [Get_feet_contact, Send_action (angles env (robot s))])"
  using assms
  by (auto simp: send_step_def Let_def split: if_splits prod.splits)

lemma actuate_step_calls:
  assumes "actuate_step env a inp s = Inr s'"
  shows "calls s' = calls s @
     (if args_robot a then [Hwi_set_position_all (angles env (robot s))]
      else if args_mujoco a then [Get_feet_contact, Send_action (angles env (robot s))]
      else [])"
  using assms
proof (cases rule: actuate_step_Inr)
  case idle
  then show ?thesis by simp
next
  case (sent s1 s2)
  from send_step_calls[OF sent(2) sent(1)] fault_step_frame(10)[OF sent(3)] sent(1) sent(4)
  show ?thesis by (auto simp: input_step_frame)
qed

text \<open>
  The calls of a completed iteration, in order: the \<^verbatim>\<open>configure\<close> call if any, the
  sub-iterations of the solver loop, the replanning block, the back end.
\<close>

lemma tick_body_calls:
  assumes "tick_body env a inp s = Inr s'"
  shows "calls s' = calls s @ configure_calls s
      @ concat (map (sub_iteration_calls (petage_de_gueule s) (t s)) [0..<REFINE])
      @ replan_calls env s @ backend_calls env a (robot s')"
    and "robot s' = robot (ik_loop env (configure_step s))"
    and "tasks s' = tasks (ik_loop env (configure_step s))"
    and "solver_dt s' = solver_dt s"
    and "t s' = fadd (t s) DT"
proof -
  let ?s1 = "configure_step s"
  let ?s2 = "ik_loop env ?s1"
  let ?s3 = "replan_step env ?s2"
  let ?s4 = "display_step a ?s3"
  from assms obtain s5 where act: "actuate_step env a inp ?s4 = Inr s5"
    and s': "s' = s5\<lparr>t := fadd (t s5) DT\<rparr>"
    by (rule tick_body_Inr)
  note f5 = actuate_step_frame[OF act]
  have t2: "t ?s2 = t s" and l2: "last_replan ?s2 = last_replan s"
    and tr2: "trajectory ?s2 = trajectory s" and p2: "petage_de_gueule ?s1 = petage_de_gueule s"
    by (simp_all add: ik_loop_def ik_fold_frame configure_step_frame)
  have c2: "calls ?s2 = calls s @ configure_calls s
      @ concat (map (sub_iteration_calls (petage_de_gueule s) (t s)) [0..<REFINE])"
    by (simp add: ik_loop_def ik_fold_calls configure_step_calls configure_step_frame)
  have c3: "calls ?s3 = calls ?s2 @ replan_calls env s"
    using replan_calls_cong[OF t2 l2 tr2] by (simp add: replan_step_calls)
  have r4: "robot ?s4 = robot ?s2"
    by (simp add: display_step_frame replan_step_frame)
  show "robot s' = robot ?s2"
    using f5 r4 s' by simp
  show "tasks s' = tasks ?s2"
    using f5 s' by (simp add: display_step_frame replan_step_frame)
  show "solver_dt s' = solver_dt s"
    using f5 s'
    by (simp add: display_step_frame replan_step_frame ik_loop_def ik_fold_frame configure_step_frame)
  show "t s' = fadd (t s) DT"
    using f5 s' t2 by (simp add: display_step_frame replan_step_frame)
  have "calls s' = calls ?s4 @
     (if args_robot a then [Hwi_set_position_all (angles env (robot ?s4))]
      else if args_mujoco a then [Get_feet_contact, Send_action (angles env (robot ?s4))]
      else [])"
    using actuate_step_calls[OF act] s' by simp
  also have "robot ?s4 = robot s'"
    using f5 s' by simp
  finally show "calls s' = calls s @ configure_calls s
      @ concat (map (sub_iteration_calls (petage_de_gueule s) (t s)) [0..<REFINE])
      @ replan_calls env s @ backend_calls env a (robot s')"
    by (simp add: display_step_calls c3 c2 backend_calls_def)
qed

subsection \<open>Which iterations complete\<close>

lemma backend_of_server:
  assumes "bound a = Some Server"
  shows "\<not> args_pybullet a" "\<not> args_meshcat a" "\<not> args_robot a" "args_mujoco a"
  using assms by (auto simp: bound_def split: if_splits)

lemma fault_step_bound:
  assumes "time_since_last_left_contact s = Some l" and "time_since_last_right_contact s = Some r"
  shows "fault_step s =
     Inr (s\<lparr>petage_de_gueule := (single_support_duration < l \<or> single_support_duration < r),
            time_since_last_left_contact := Some (fadd l DT),
            time_since_last_right_contact := Some (fadd r DT)\<rparr>)"
  using assms by (simp add: fault_step_def)

text \<open>
  With the MuJoCo back end and both timers bound, an iteration raises nothing; the timers
  and the flag at its end are those of lines 289 to 308.
\<close>

lemma tick_body_mujoco:
  assumes "bound a = Some Server"
    and "time_since_last_left_contact s = Some l"
    and "time_since_last_right_contact s = Some r"
  obtains s' where "tick_body env a inp s = Inr s'"
    and "time_since_last_left_contact s' = Some (fadd (if snd (feet_contact inp) then 0 else l) DT)"
    and "time_since_last_right_contact s' = Some (fadd (if fst (feet_contact inp) then 0 else r) DT)"
    and "petage_de_gueule s' \<longleftrightarrow>
          single_support_duration < (if snd (feet_contact inp) then 0 else l)
          \<or> single_support_duration < (if fst (feet_contact inp) then 0 else r)"
proof -
  note b = backend_of_server[OF assms(1)]
  let ?s4 = "display_step a (replan_step env (ik_loop env (configure_step s)))"
  let ?l = "if snd (feet_contact inp) then 0 else l"
  let ?r = "if fst (feet_contact inp) then 0 else r"
  have l4: "time_since_last_left_contact ?s4 = Some l"
    and r4: "time_since_last_right_contact ?s4 = Some r"
    using assms(2,3)
    by (simp_all add: display_step_frame replan_step_frame ik_loop_def ik_fold_frame configure_step_frame)
  obtain s5 where send: "send_step env a inp ?s4 = Inr s5"
    and l5: "time_since_last_left_contact s5 = Some ?l"
    and r5: "time_since_last_right_contact s5 = Some ?r"
    using b assms(1) l4 r4
    by (cases "feet_contact inp") (simp add: send_step_def Let_def)
  define s6 where "s6 = s5\<lparr>petage_de_gueule := (single_support_duration < ?l \<or> single_support_duration < ?r),
            time_since_last_left_contact := Some (fadd ?l DT),
            time_since_last_right_contact := Some (fadd ?r DT)\<rparr>"
  have fault: "fault_step s5 = Inr s6"
    unfolding s6_def by (rule fault_step_bound[OF l5 r5])
  have l6: "time_since_last_left_contact s6 = Some (fadd ?l DT)"
    and r6: "time_since_last_right_contact s6 = Some (fadd ?r DT)"
    and p6: "petage_de_gueule s6 \<longleftrightarrow> single_support_duration < ?l \<or> single_support_duration < ?r"
    by (simp_all add: s6_def)
  have act: "actuate_step env a inp ?s4 = Inr (input_step inp s6)"
    using b send fault by (simp add: actuate_step_def)
  have "tick_body env a inp s = Inr ((input_step inp s6)\<lparr>t := fadd (t (input_step inp s6)) DT\<rparr>)"
    using act by (simp add: tick_body_def)
  from that[OF this] l6 r6 p6 show thesis
    by (simp add: input_step_frame)
qed


text \<open>
  With \<^verbatim>\<open>--robot\<close> the set-up never binds the contact timers, and line 299 reads them: the
  first iteration raises \<^verbatim>\<open>NameError\<close>. This is why the properties of whole iterations
  are stated for the other back ends.
\<close>

lemma robot_back_end_raises:
  assumes "args_robot a" and "initial_engine a traj sp tk rb = Inr s0"
  shows "tick_body env a inp s0 = Inl NameError"
proof -
  let ?s4 = "display_step a (replan_step env (ik_loop env (configure_step s0)))"
  from assms(2) obtain b where b: "bound a = Some b"
    and l0: "time_since_last_left_contact s0 = (if b = Server then Some 0 else None)"
    by (auto simp: initial_engine_def split: option.splits)
  from b assms(1) have nb: "b \<noteq> Server"
    by (auto simp: bound_def split: if_splits)
  have l4: "time_since_last_left_contact ?s4 = None"
    using l0 nb
    by (simp add: display_step_frame replan_step_frame ik_loop_def ik_fold_frame configure_step_frame)
  show ?thesis
  proof (cases "bound a = Some Hwi")
    case True
    then have "send_step env a inp ?s4 =
        Inr (?s4\<lparr>calls := calls ?s4 @ [Hwi_set_position_all (angles env (robot ?s4))]\<rparr>)"
      using assms(1) by (simp add: send_step_def)
    moreover have "fault_step (?s4\<lparr>calls := calls ?s4 @ [Hwi_set_position_all (angles env (robot ?s4))]\<rparr>)
        = Inl NameError"
      using l4 by (simp add: fault_step_def)
    ultimately show ?thesis
      using assms(1) by (simp add: tick_body_def actuate_step_def)
  next
    case False
    then have "send_step env a inp ?s4 = Inl NameError"
      using assms(1) by (simp add: send_step_def)
    then show ?thesis
      using assms(1) by (simp add: tick_body_def actuate_step_def)
  qed
qed

lemma tick_body_total:
  assumes "\<not> args_robot a"
    and "args_mujoco a \<longrightarrow> bound a = Some Server
          \<and> time_since_last_left_contact s \<noteq> None \<and> time_since_last_right_contact s \<noteq> None"
  shows "\<exists>s'. tick_body env a inp s = Inr s'"
proof (cases "args_mujoco a")
  case True
  with assms(2) obtain l r where "bound a = Some Server"
    "time_since_last_left_contact s = Some l" "time_since_last_right_contact s = Some r"
    by auto
  from tick_body_mujoco[OF this] show ?thesis by metis
next
  case False
  with assms(1) show ?thesis
    by (simp add: tick_body_def actuate_step_def)
qed

subsection \<open>Replanning\<close>

lemma tick_body_replan:
  assumes "tick_body env a inp s = Inr s'"
  shows "replan_due env s \<and> can_replan_supports env (trajectory s) (t s) \<Longrightarrow>
      last_replan s' = t s
      \<and> supports s' = replan_supports env (planner (configure_step s)) (trajectory s) (t s)
      \<and> trajectory s' = replan env (supports s') (trajectory s) (t s)"
    and "\<not> (replan_due env s \<and> can_replan_supports env (trajectory s) (t s)) \<Longrightarrow>
      last_replan s' = last_replan s \<and> supports s' = supports s \<and> trajectory s' = trajectory s"
proof -
  let ?s2 = "ik_loop env (configure_step s)"
  let ?s3 = "replan_step env ?s2"
  from assms obtain s5 where act: "actuate_step env a inp (display_step a ?s3) = Inr s5"
    and s': "s' = s5\<lparr>t := fadd (t s5) DT\<rparr>"
    by (rule tick_body_Inr)
  note f5 = actuate_step_frame[OF act]
  have eq: "last_replan s' = last_replan ?s3" "supports s' = supports ?s3"
    "trajectory s' = trajectory ?s3"
    using f5 s' by (simp_all add: display_step_frame)
  have s2: "t ?s2 = t s" "last_replan ?s2 = last_replan s" "trajectory ?s2 = trajectory s"
    "supports ?s2 = supports s" "planner ?s2 = planner (configure_step s)"
    by (simp_all add: ik_loop_def ik_fold_frame configure_step_frame)
  have due: "replan_due env ?s2 = replan_due env s"
    using s2 by (simp add: replan_due_def)
  { assume c: "replan_due env s \<and> can_replan_supports env (trajectory s) (t s)"
    then have "replan_due env ?s2" "can_replan_supports env (trajectory ?s2) (t ?s2)"
      using due s2 by simp_all
    from replan_step_done[OF this] eq s2
    show "last_replan s' = t s
      \<and> supports s' = replan_supports env (planner (configure_step s)) (trajectory s) (t s)
      \<and> trajectory s' = replan env (supports s') (trajectory s) (t s)"
      by simp }
  { assume c: "\<not> (replan_due env s \<and> can_replan_supports env (trajectory s) (t s))"
    then have "\<not> (replan_due env ?s2 \<and> can_replan_supports env (trajectory ?s2) (t ?s2))"
      using due s2 by simp
    from replan_step_skipped[OF this] eq s2
    show "last_replan s' = last_replan s \<and> supports s' = supports s \<and> trajectory s' = trajectory s"
      by simp }
qed

lemma new_calls:
  assumes "tick_body env a inp s = Inr s'"
  shows "drop (length (calls s)) (calls s') = configure_calls s
      @ concat (map (sub_iteration_calls (petage_de_gueule s) (t s)) [0..<REFINE])
      @ replan_calls env s @ backend_calls env a (robot s')"
  using tick_body_calls(1)[OF assms] by simp

lemma Replan_in_calls:
  "Replan tm \<notin> set (configure_calls s)"
  "Replan tm \<notin> set (sub_iteration_calls p tm' k)"
  "Replan tm \<notin> set (backend_calls env a rb)"
  "Replan tm \<in> set (replan_calls env s) \<longleftrightarrow>
     tm = t s \<and> replan_due env s \<and> can_replan_supports env (trajectory s) (t s)"
  by (auto simp: configure_calls_def sub_iteration_calls_def backend_calls_def replan_calls_def)

text \<open>
  C5. On a back end on which the loop runs (no \<^verbatim>\<open>--robot\<close>; with \<^verbatim>\<open>--mujoco\<close>, the MuJoCo
  set-up done), an iteration raises nothing, and it replans if and only if the cadence test
  \<^verbatim>\<open>t - last_replan > parameters.replan_timesteps * parameters.dt()\<close> holds and
  \<^verbatim>\<open>can_replan_supports(trajectory, t)\<close> is true. When it replans, \<open>last_replan\<close> becomes
  the current \<open>t\<close>, the supports are those of \<^verbatim>\<open>replan_supports\<close>, and the trajectory is what
  \<^verbatim>\<open>walk.replan\<close> builds over the new supports. Otherwise, also when the cadence has elapsed
  and replanning is not allowed, \<open>last_replan\<close>, the supports and the trajectory stay as
  they are.
\<close>

theorem replan_gating:
  assumes "\<not> args_robot a"
    and "args_mujoco a \<longrightarrow> bound a = Some Server
          \<and> time_since_last_left_contact s \<noteq> None \<and> time_since_last_right_contact s \<noteq> None"
  shows "\<exists>s'. tick_body env a inp s = Inr s'
    \<and> (replan_due env s \<longleftrightarrow> fmul replan_timesteps (parameters_dt env) < fsub (t s) (last_replan s))
    \<and> (Replan (t s) \<in> set (drop (length (calls s)) (calls s'))
         \<longleftrightarrow> replan_due env s \<and> can_replan_supports env (trajectory s) (t s))
    \<and> (if replan_due env s \<and> can_replan_supports env (trajectory s) (t s)
        then last_replan s' = t s
          \<and> supports s' = replan_supports env (planner (configure_step s)) (trajectory s) (t s)
          \<and> trajectory s' = replan env (supports s') (trajectory s) (t s)
        else last_replan s' = last_replan s \<and> supports s' = supports s
          \<and> trajectory s' = trajectory s)"
proof -
  from tick_body_total[OF assms] obtain s' where body: "tick_body env a inp s = Inr s'" ..
  have "Replan (t s) \<in> set (drop (length (calls s)) (calls s'))
         \<longleftrightarrow> replan_due env s \<and> can_replan_supports env (trajectory s) (t s)"
    unfolding new_calls[OF body] by (simp add: Replan_in_calls)
  moreover have "if replan_due env s \<and> can_replan_supports env (trajectory s) (t s)
        then last_replan s' = t s
          \<and> supports s' = replan_supports env (planner (configure_step s)) (trajectory s) (t s)
          \<and> trajectory s' = replan env (supports s') (trajectory s) (t s)
        else last_replan s' = last_replan s \<and> supports s' = supports s
          \<and> trajectory s' = trajectory s"
    using tick_body_replan[OF body] by (simp split: if_splits)
  ultimately show ?thesis
    using body by (auto simp: replan_due_def)
qed

subsection \<open>The solver loop\<close>

lemma count_sub_iterations:
  "count_list (concat (map (sub_iteration_calls p tm) ks)) Solve = length ks"
  "count_list (concat (map (sub_iteration_calls p tm) ks)) Update_kinematics = length ks"
  by (induction ks) (simp_all add: sub_iteration_calls_def)

lemma count_other_calls:
  "count_list (configure_calls s) Solve = 0"
  "count_list (configure_calls s) Update_kinematics = 0"
  "count_list (replan_calls env s) Solve = 0"
  "count_list (replan_calls env s) Update_kinematics = 0"
  "count_list (backend_calls env a rb) Solve = 0"
  "count_list (backend_calls env a rb) Update_kinematics = 0"
  by (simp_all add: configure_calls_def replan_calls_def backend_calls_def)

lemma Update_tasks_in_calls:
  "Update_tasks_from_trajectory tm \<notin> set (configure_calls s)"
  "Update_tasks_from_trajectory tm \<notin> set (replan_calls env s)"
  "Update_tasks_from_trajectory tm \<notin> set (backend_calls env a rb)"
  "Update_tasks_from_trajectory tm \<notin> set (sub_iteration_calls True tm' k)"
  by (auto simp: configure_calls_def sub_iteration_calls_def backend_calls_def replan_calls_def)

text \<open>
  C4. An iteration that starts with \<open>petage_de_gueule\<close> set leaves the task targets as they
  were: after each of the \<open>REFINE\<close> sub-iterations of the solver loop they are still those of
  the start, and the iteration makes no call of \<^verbatim>\<open>update_tasks_from_trajectory\<close>, while
  it makes \<open>REFINE\<close> calls of \<^verbatim>\<open>update_kinematics\<close> and \<open>REFINE\<close> calls of \<^verbatim>\<open>solve\<close>.
\<close>

theorem faulted_tick_freezes_tasks:
  assumes "tick_body env a inp s = Inr s'" and "petage_de_gueule s"
  shows "tasks s' = tasks s
    \<and> (\<forall>k \<le> REFINE. tasks (foldl (ik_iteration env) (configure_step s) [0..<k]) = tasks s)
    \<and> (\<forall>tm. Update_tasks_from_trajectory tm \<notin> set (drop (length (calls s)) (calls s')))
    \<and> count_list (drop (length (calls s)) (calls s')) Update_kinematics = REFINE
    \<and> count_list (drop (length (calls s)) (calls s')) Solve = REFINE"
proof -
  have p: "petage_de_gueule (configure_step s)"
    using assms(2) by (simp add: configure_step_frame)
  have frozen: "tasks (foldl (ik_iteration env) (configure_step s) ks) = tasks s" for ks
    using ik_fold_faulted[OF p] by (simp add: configure_step_frame)
  have "tasks s' = tasks s"
    using tick_body_calls(3)[OF assms(1)] frozen by (simp add: ik_loop_def)
  moreover have "\<forall>tm. Update_tasks_from_trajectory tm \<notin> set (drop (length (calls s)) (calls s'))"
    unfolding new_calls[OF assms(1)] using assms(2) by (simp add: Update_tasks_in_calls)
  moreover have "count_list (drop (length (calls s)) (calls s')) Update_kinematics = REFINE"
    "count_list (drop (length (calls s)) (calls s')) Solve = REFINE"
    unfolding new_calls[OF assms(1)]
    by (simp_all add: count_sub_iterations count_other_calls)
  ultimately show ?thesis
    using frozen by simp
qed

lemma tick_Some_Inr:
  assumes "tick env a start_t inp s = Some (Inr s')"
  shows "tick_body env a inp s = Inr s'"
    and "pace (fadd start_t (t s')) (clock inp) \<noteq> None"
  using assms by (auto simp: tick_def split: sum.splits option.splits)

lemma run_solver_dt:
  "run env a start_t inps s = Some (Inr s') \<Longrightarrow> solver_dt s' = solver_dt s"
proof (induction inps arbitrary: s)
  case Nil
  then show ?case by simp
next
  case (Cons inp inps)
  then obtain s1 where t1: "tick env a start_t inp s = Some (Inr s1)"
    and r: "run env a start_t inps s1 = Some (Inr s')"
    by (auto split: option.splits sum.splits)
  from Cons.IH[OF r] tick_body_calls(4)[OF tick_Some_Inr(1)[OF t1]] show ?case by simp
qed

lemma ik_fold_Suc:
  "foldl (ik_iteration env) s [0..<Suc k] = ik_iteration env (foldl (ik_iteration env) s [0..<k]) k"
  by simp

lemma ik_iteration_effect:
  "tasks (ik_iteration env s k) =
     (if petage_de_gueule s then tasks s
      else update_tasks_from_trajectory env (trajectory s) (sample_time (t s) k) (tasks s))"
  "robot (ik_iteration env s k) =
     solve env (tasks (ik_iteration env s k)) (update_kinematics env (robot s))"
  by (simp_all add: ik_iteration_def Let_def)

lemma ik_fold_effect:
  fixes env :: "('traj, 'sup, 'tasks, 'rob) placo" and s :: "('traj, 'sup, 'tasks, 'rob) engine"
  defines "st \<equiv> \<lambda>k. foldl (ik_iteration env) (configure_step s) [0..<k]"
  shows "tasks (st 0) = tasks s" and "robot (st 0) = robot s"
    and "tasks (st (Suc k)) =
      (if petage_de_gueule s then tasks (st k)
       else update_tasks_from_trajectory env (trajectory s) (sample_time (t s) k) (tasks (st k)))"
    and "robot (st (Suc k)) = solve env (tasks (st (Suc k))) (update_kinematics env (robot (st k)))"
proof -
  show "tasks (st 0) = tasks s" "robot (st 0) = robot s"
    by (simp_all add: st_def configure_step_frame)
  have step: "st (Suc k) = ik_iteration env (st k) k"
    unfolding st_def by (rule ik_fold_Suc)
  have same: "petage_de_gueule (st k) = petage_de_gueule s" "trajectory (st k) = trajectory s"
    "t (st k) = t s"
    by (simp_all add: st_def ik_fold_frame configure_step_frame)
  show "tasks (st (Suc k)) =
      (if petage_de_gueule s then tasks (st k)
       else update_tasks_from_trajectory env (trajectory s) (sample_time (t s) k) (tasks (st k)))"
    unfolding step ik_iteration_effect(1) same ..
  show "robot (st (Suc k)) = solve env (tasks (st (Suc k))) (update_kinematics env (robot (st k)))"
    unfolding step ik_iteration_effect(2) ..
qed

text \<open>
  C8. In every iteration of a run from the initial state, \<^verbatim>\<open>solver.dt\<close> is \<open>DT / REFINE\<close>,
  and the iteration makes, after the \<^verbatim>\<open>configure\<close> call if there is one, exactly
  \<open>REFINE = 10\<close> sub-iterations, each a kinematics update and a solve, before the
  replanning block and before the joint targets go to the back end; the targets sent are
  read from the robot state after the last sub-iteration. When \<open>petage_de_gueule\<close> is not
  set, sub-iteration \<open>k\<close> first samples the trajectory at \<^verbatim>\<open>t - DT + k * DT / REFINE\<close>
  (in float arithmetic), for \<open>k = 0, ..., REFINE - 1\<close>: with \<open>tk k\<close> and \<open>rb k\<close> the task
  targets and the robot state before sub-iteration \<open>k\<close>, the task targets after it are
  \<^verbatim>\<open>update_tasks_from_trajectory\<close> of the trajectory at that time, applied to \<open>tk k\<close> (and
  \<open>tk k\<close> itself when the flag is set), the robot state after it is \<^verbatim>\<open>solve\<close> over these
  targets of \<^verbatim>\<open>update_kinematics\<close> of \<open>rb k\<close>, and the iteration ends with the task targets
  and the robot state that the last sub-iteration left.
\<close>

theorem refine_sub_iterations:
  assumes "initial_engine a traj sp tk0 rb0 = Inr s0"
    and "run env a start_t inps s0 = Some (Inr s)"
    and "tick_body env a inp s = Inr s'"
  shows "REFINE = 10
    \<and> solver_dt s = fdiv DT (of_nat REFINE) \<and> solver_dt s' = fdiv DT (of_nat REFINE)
    \<and> calls s' = calls s @ configure_calls s
        @ concat (map (sub_iteration_calls (petage_de_gueule s) (t s)) [0..<REFINE])
        @ replan_calls env s @ backend_calls env a (robot s')
    \<and> robot s' = robot (ik_loop env (configure_step s))
    \<and> count_list (drop (length (calls s)) (calls s')) Solve = REFINE
    \<and> (\<forall>k. sample_time (t s) k = fadd (fsub (t s) DT) (fdiv (fmul (of_nat k) DT) (of_nat REFINE)))
    \<and> (\<exists>tk rb. tk 0 = tasks s \<and> rb 0 = robot s
         \<and> (\<forall>k<REFINE.
              tk (Suc k) =
                (if petage_de_gueule s then tk k
                 else update_tasks_from_trajectory env (trajectory s)
                        (fadd (fsub (t s) DT) (fdiv (fmul (of_nat k) DT) (of_nat REFINE))) (tk k))
              \<and> rb (Suc k) = solve env (tk (Suc k)) (update_kinematics env (rb k)))
         \<and> tasks s' = tk REFINE \<and> robot s' = rb REFINE)"
proof -
  have "solver_dt s0 = fdiv DT (of_nat REFINE)"
    using assms(1) by (auto simp: initial_engine_def split: option.splits)
  then have d: "solver_dt s = fdiv DT (of_nat REFINE)"
    using run_solver_dt[OF assms(2)] by simp
  have "count_list (drop (length (calls s)) (calls s')) Solve = REFINE"
    unfolding new_calls[OF assms(3)]
    by (simp add: count_sub_iterations count_other_calls)
  with d tick_body_calls[OF assms(3)] have first: "REFINE = 10
    \<and> solver_dt s = fdiv DT (of_nat REFINE) \<and> solver_dt s' = fdiv DT (of_nat REFINE)
    \<and> calls s' = calls s @ configure_calls s
        @ concat (map (sub_iteration_calls (petage_de_gueule s) (t s)) [0..<REFINE])
        @ replan_calls env s @ backend_calls env a (robot s')
    \<and> robot s' = robot (ik_loop env (configure_step s))
    \<and> count_list (drop (length (calls s)) (calls s')) Solve = REFINE
    \<and> (\<forall>k. sample_time (t s) k = fadd (fsub (t s) DT) (fdiv (fmul (of_nat k) DT) (of_nat REFINE)))"
    by (simp add: REFINE_def sample_time_def)
  define st where "st = (\<lambda>k. foldl (ik_iteration env) (configure_step s) [0..<k])"
  have last: "tasks s' = tasks (st REFINE)" "robot s' = robot (st REFINE)"
    using tick_body_calls(2,3)[OF assms(3)] by (simp_all add: st_def ik_loop_def)
  have e: "tasks (st 0) = tasks s" "robot (st 0) = robot s"
    "\<And>k. tasks (st (Suc k)) =
      (if petage_de_gueule s then tasks (st k)
       else update_tasks_from_trajectory env (trajectory s) (sample_time (t s) k) (tasks (st k)))"
    "\<And>k. robot (st (Suc k)) = solve env (tasks (st (Suc k))) (update_kinematics env (robot (st k)))"
    unfolding st_def by (rule ik_fold_effect)+
  have "(\<lambda>k. tasks (st k)) 0 = tasks s \<and> (\<lambda>k. robot (st k)) 0 = robot s
         \<and> (\<forall>k<REFINE.
              (\<lambda>k. tasks (st k)) (Suc k) =
                (if petage_de_gueule s then (\<lambda>k. tasks (st k)) k
                 else update_tasks_from_trajectory env (trajectory s)
                        (fadd (fsub (t s) DT) (fdiv (fmul (of_nat k) DT) (of_nat REFINE)))
                        ((\<lambda>k. tasks (st k)) k))
              \<and> (\<lambda>k. robot (st k)) (Suc k) =
                  solve env ((\<lambda>k. tasks (st k)) (Suc k)) (update_kinematics env ((\<lambda>k. robot (st k)) k)))
         \<and> tasks s' = (\<lambda>k. tasks (st k)) REFINE \<and> robot s' = (\<lambda>k. robot (st k)) REFINE"
    using e last by (simp add: sample_time_def)
  then have "\<exists>tk rb. tk 0 = tasks s \<and> rb 0 = robot s
         \<and> (\<forall>k<REFINE.
              tk (Suc k) =
                (if petage_de_gueule s then tk k
                 else update_tasks_from_trajectory env (trajectory s)
                        (fadd (fsub (t s) DT) (fdiv (fmul (of_nat k) DT) (of_nat REFINE))) (tk k))
              \<and> rb (Suc k) = solve env (tk (Suc k)) (update_kinematics env (rb k)))
         \<and> tasks s' = tk REFINE \<and> robot s' = rb REFINE"
    by (intro exI)
  with first show ?thesis
    by blast
qed


subsection \<open>Examples\<close>

lemma counting_placo_robot:
  "robot (foldl (ik_iteration counting_placo) s ks) = robot s + length ks"
  by (induction ks arbitrary: s) (simp_all add: ik_iteration_def Let_def counting_placo_def)

lemma mujoco_args_server: "bound mujoco_args = Some Server"
  by (simp add: bound_def mujoco_args_def)

lemma entry_engine_initial:
  "initial_engine mujoco_args (0::nat) (0::nat) (None::rat option) (0::nat) = Inr entry_engine"
  by (simp add: initial_engine_def mujoco_args_server entry_engine_def)

lemma solver_dt_value: "fdiv DT (of_nat REFINE) = 1152921504606847 / 1152921504606846976"
  by code_simp

lemma last_sample_value:
  "fadd (fsub initial_delay DT) (fdiv (fmul (of_nat 9) DT) (of_nat REFINE))
     = - (4508103226997867 / 4503599627370496)"
  by code_simp

theorem refine_sub_iterations_witness:
  "initial_engine mujoco_args (0::nat) (0::nat) (None::rat option) (0::nat) = Inr entry_engine
   \<and> run counting_placo mujoco_args 0 [] entry_engine = Some (Inr entry_engine)
   \<and> (\<exists>s'. tick_body counting_placo mujoco_args example_input entry_engine = Inr s'
        \<and> solver_dt s' = 1152921504606847 / 1152921504606846976
        \<and> count_list (calls s') Solve = 10
        \<and> robot s' = 10
        \<and> tasks s' = Some (- (4508103226997867 / 4503599627370496)))"
proof -
  note i = entry_engine_initial
  have s0: "time_since_last_left_contact entry_engine = Some 0"
    "time_since_last_right_contact entry_engine = Some 0"
    "calls entry_engine = []" "robot entry_engine = 0"
    "t entry_engine = initial_delay" "\<not> petage_de_gueule entry_engine"
    by (simp_all add: entry_engine_def)
  have r: "run counting_placo mujoco_args 0 [] entry_engine = Some (Inr entry_engine)"
    by simp
  obtain s' where b: "tick_body counting_placo mujoco_args example_input entry_engine = Inr s'"
    using tick_body_mujoco[OF mujoco_args_server s0(1,2)] by metis
  note th = refine_sub_iterations[OF i r b]
  from th have "solver_dt s' = 1152921504606847 / 1152921504606846976"
    by (simp add: solver_dt_value)
  moreover have "count_list (calls s') Solve = 10"
  proof -
    from th have "count_list (drop (length (calls entry_engine)) (calls s')) Solve = REFINE"
      "REFINE = 10"
      by blast+
    then show ?thesis by (simp add: s0)
  qed
  moreover have "robot s' = 10"
  proof -
    from th have "robot s' = robot (ik_loop counting_placo (configure_step entry_engine))"
      "REFINE = 10"
      by blast+
    then show ?thesis
      by (simp add: ik_loop_def counting_placo_robot configure_step_frame s0)
  qed
  moreover have "tasks s' = Some (- (4508103226997867 / 4503599627370496))"
  proof -
    from th obtain tk rb where
      step: "\<forall>k<REFINE. tk (Suc k) =
                (if petage_de_gueule entry_engine then tk k
                 else update_tasks_from_trajectory counting_placo (trajectory entry_engine)
                        (fadd (fsub (t entry_engine) DT) (fdiv (fmul (of_nat k) DT) (of_nat REFINE)))
                        (tk k))
              \<and> rb (Suc k) = solve counting_placo (tk (Suc k)) (update_kinematics counting_placo (rb k))"
      and fin: "tasks s' = tk REFINE"
      by blast
    have "(9::nat) < REFINE" "Suc 9 = REFINE"
      by (simp_all add: REFINE_def)
    with step have "tk REFINE =
        update_tasks_from_trajectory counting_placo (trajectory entry_engine)
          (fadd (fsub initial_delay DT) (fdiv (fmul (of_nat 9) DT) (of_nat REFINE))) (tk 9)"
      using s0(5,6) by metis
    then show ?thesis
      unfolding fin last_sample_value by (simp add: counting_placo_def)
  qed
  ultimately show ?thesis
    using i r b by blast
qed

theorem faulted_tick_freezes_tasks_witness:
  "petage_de_gueule (example_engine\<lparr>petage_de_gueule := True\<rparr>)
   \<and> (\<exists>s'. tick_body counting_placo mujoco_args example_input
              (example_engine\<lparr>petage_de_gueule := True\<rparr>) = Inr s'
        \<and> tasks s' = Some 7
        \<and> count_list (calls s') Update_kinematics = 10
        \<and> count_list (calls s') Solve = 10)"
proof -
  let ?s = "example_engine\<lparr>petage_de_gueule := True\<rparr>"
  have p: "petage_de_gueule ?s" by simp
  have s: "time_since_last_left_contact ?s = Some 0" "time_since_last_right_contact ?s = Some 0"
    "calls ?s = []" "tasks ?s = Some 7"
    by (simp_all add: example_engine_def)
  obtain s' where b: "tick_body counting_placo mujoco_args example_input ?s = Inr s'"
    using tick_body_mujoco[OF mujoco_args_server s(1,2)] by metis
  note th = faulted_tick_freezes_tasks[OF b p]
  from th have "tasks s' = tasks ?s"
    "count_list (drop (length (calls ?s)) (calls s')) Update_kinematics = REFINE"
    "count_list (drop (length (calls ?s)) (calls s')) Solve = REFINE"
    by blast+
  then have "tasks s' = Some 7" "count_list (calls s') Update_kinematics = 10"
    "count_list (calls s') Solve = 10"
    by (simp_all add: REFINE_def s)
  with p b show ?thesis by blast
qed

lemma example_replan_due:
  "fmul replan_timesteps (round_double (2 / 100)) < fsub 1 0"
  by code_simp

theorem replan_gating_witness:
  "\<not> args_robot mujoco_args \<and> bound mujoco_args = Some Server
   \<and> time_since_last_left_contact example_engine \<noteq> None
   \<and> time_since_last_right_contact example_engine \<noteq> None
   \<and> replan_due counting_placo example_engine
   \<and> (\<exists>s'. tick_body counting_placo mujoco_args example_input example_engine = Inr s'
        \<and> Replan 1 \<in> set (calls s') \<and> last_replan s' = 1 \<and> supports s' = 1 \<and> trajectory s' = 1)
   \<and> (\<exists>s'. tick_body (counting_placo\<lparr>can_replan_supports := (\<lambda>traj tm. False)\<rparr>) mujoco_args
              example_input example_engine = Inr s'
        \<and> Replan 1 \<notin> set (calls s') \<and> last_replan s' = 0 \<and> supports s' = 0 \<and> trajectory s' = 0)"
proof -
  let ?env = "counting_placo\<lparr>can_replan_supports := (\<lambda>traj tm. False)\<rparr>"
  have a: "\<not> args_robot mujoco_args"
    by (simp add: mujoco_args_def)
  have s: "time_since_last_left_contact example_engine \<noteq> None"
    "time_since_last_right_contact example_engine \<noteq> None"
    by (simp_all add: example_engine_def)
  have h: "args_mujoco mujoco_args \<longrightarrow> bound mujoco_args = Some Server
          \<and> time_since_last_left_contact example_engine \<noteq> None
          \<and> time_since_last_right_contact example_engine \<noteq> None"
    using s mujoco_args_server by simp
  have e: "t example_engine = 1" "last_replan example_engine = 0" "calls example_engine = []"
    "trajectory example_engine = 0" "supports example_engine = 0"
    by (simp_all add: example_engine_def)
  have due: "replan_due counting_placo example_engine"
    using example_replan_due by (simp add: replan_due_def e counting_placo_def)
  have due': "replan_due ?env example_engine"
    using example_replan_due by (simp add: replan_due_def e counting_placo_def)
  from replan_gating[OF a h, of counting_placo example_input] due e
  have yes: "\<exists>s'. tick_body counting_placo mujoco_args example_input example_engine = Inr s'
        \<and> Replan 1 \<in> set (calls s') \<and> last_replan s' = 1 \<and> supports s' = 1 \<and> trajectory s' = 1"
    by (auto simp: counting_placo_def)
  from replan_gating[OF a h, of ?env example_input] due' e
  have no: "\<exists>s'. tick_body ?env mujoco_args example_input example_engine = Inr s'
        \<and> Replan 1 \<notin> set (calls s') \<and> last_replan s' = 0 \<and> supports s' = 0 \<and> trajectory s' = 0"
    by (auto simp: counting_placo_def)
  from a mujoco_args_server s due yes no show ?thesis
    by blast
qed

subsection \<open>The contact timers in float arithmetic\<close>

lemma DT_value: "DT = 5764607523034235 / 576460752303423488"
  by code_simp

lemma single_support_duration_value: "single_support_duration = 3602879701896397 / 18014398509481984"
  by code_simp

text \<open>
  The first twenty values of a contact timer. The additions round: after twenty of them the
  timer is \<^verbatim>\<open>0.20000000000000004\<close>, above the duration \<^verbatim>\<open>0.2\<close>.
\<close>

lemma timer_1: "timer 1 = 5764607523034235 / 576460752303423488"
proof -
  have "timer 1 = fadd 0 DT"
    by simp
  also have "\<dots> = 5764607523034235 / 576460752303423488"
    unfolding DT_value by code_simp
  finally show ?thesis .
qed

lemma timer_2: "timer 2 = 5764607523034235 / 288230376151711744"
proof -
  have e: "Suc 1 = 2"
    by simp
  have "timer 2 = fadd (timer 1) DT"
    using timer.simps(2)[of 1] unfolding e .
  also have "\<dots> = 5764607523034235 / 288230376151711744"
    unfolding timer_1 DT_value by code_simp
  finally show ?thesis .
qed

lemma timer_3: "timer 3 = 1080863910568919 / 36028797018963968"
proof -
  have e: "Suc 2 = 3"
    by simp
  have "timer 3 = fadd (timer 2) DT"
    using timer.simps(2)[of 2] unfolding e .
  also have "\<dots> = 1080863910568919 / 36028797018963968"
    unfolding timer_2 DT_value by code_simp
  finally show ?thesis .
qed

lemma timer_4: "timer 4 = 5764607523034235 / 144115188075855872"
proof -
  have e: "Suc 3 = 4"
    by simp
  have "timer 4 = fadd (timer 3) DT"
    using timer.simps(2)[of 3] unfolding e .
  also have "\<dots> = 5764607523034235 / 144115188075855872"
    unfolding timer_3 DT_value by code_simp
  finally show ?thesis .
qed

lemma timer_5: "timer 5 = 3602879701896397 / 72057594037927936"
proof -
  have e: "Suc 4 = 5"
    by simp
  have "timer 5 = fadd (timer 4) DT"
    using timer.simps(2)[of 4] unfolding e .
  also have "\<dots> = 3602879701896397 / 72057594037927936"
    unfolding timer_4 DT_value by code_simp
  finally show ?thesis .
qed

lemma timer_6: "timer 6 = 8646911284551353 / 144115188075855872"
proof -
  have e: "Suc 5 = 6"
    by simp
  have "timer 6 = fadd (timer 5) DT"
    using timer.simps(2)[of 5] unfolding e .
  also have "\<dots> = 8646911284551353 / 144115188075855872"
    unfolding timer_5 DT_value by code_simp
  finally show ?thesis .
qed

lemma timer_7: "timer 7 = 1261007895663739 / 18014398509481984"
proof -
  have e: "Suc 6 = 7"
    by simp
  have "timer 7 = fadd (timer 6) DT"
    using timer.simps(2)[of 6] unfolding e .
  also have "\<dots> = 1261007895663739 / 18014398509481984"
    unfolding timer_6 DT_value by code_simp
  finally show ?thesis .
qed

lemma timer_8: "timer 8 = 5764607523034235 / 72057594037927936"
proof -
  have e: "Suc 7 = 8"
    by simp
  have "timer 8 = fadd (timer 7) DT"
    using timer.simps(2)[of 7] unfolding e .
  also have "\<dots> = 5764607523034235 / 72057594037927936"
    unfolding timer_7 DT_value by code_simp
  finally show ?thesis .
qed

lemma timer_9: "timer 9 = 3242591731706757 / 36028797018963968"
proof -
  have e: "Suc 8 = 9"
    by simp
  have "timer 9 = fadd (timer 8) DT"
    using timer.simps(2)[of 8] unfolding e .
  also have "\<dots> = 3242591731706757 / 36028797018963968"
    unfolding timer_8 DT_value by code_simp
  finally show ?thesis .
qed

lemma timer_10: "timer 10 = 7205759403792793 / 72057594037927936"
proof -
  have e: "Suc 9 = 10"
    by simp
  have "timer 10 = fadd (timer 9) DT"
    using timer.simps(2)[of 9] unfolding e .
  also have "\<dots> = 7205759403792793 / 72057594037927936"
    unfolding timer_9 DT_value by code_simp
  finally show ?thesis .
qed

lemma timer_11: "timer 11 = 990791918021509 / 9007199254740992"
proof -
  have e: "Suc 10 = 11"
    by simp
  have "timer 11 = fadd (timer 10) DT"
    using timer.simps(2)[of 10] unfolding e .
  also have "\<dots> = 990791918021509 / 9007199254740992"
    unfolding timer_10 DT_value by code_simp
  finally show ?thesis .
qed

lemma timer_12: "timer 12 = 8646911284551351 / 72057594037927936"
proof -
  have e: "Suc 11 = 12"
    by simp
  have "timer 12 = fadd (timer 11) DT"
    using timer.simps(2)[of 11] unfolding e .
  also have "\<dots> = 8646911284551351 / 72057594037927936"
    unfolding timer_11 DT_value by code_simp
  finally show ?thesis .
qed

lemma timer_13: "timer 13 = 4683743612465315 / 36028797018963968"
proof -
  have e: "Suc 12 = 13"
    by simp
  have "timer 13 = fadd (timer 12) DT"
    using timer.simps(2)[of 12] unfolding e .
  also have "\<dots> = 4683743612465315 / 36028797018963968"
    unfolding timer_12 DT_value by code_simp
  finally show ?thesis .
qed

lemma timer_14: "timer 14 = 5044031582654955 / 36028797018963968"
proof -
  have e: "Suc 13 = 14"
    by simp
  have "timer 14 = fadd (timer 13) DT"
    using timer.simps(2)[of 13] unfolding e .
  also have "\<dots> = 5044031582654955 / 36028797018963968"
    unfolding timer_13 DT_value by code_simp
  finally show ?thesis .
qed

lemma timer_15: "timer 15 = 5404319552844595 / 36028797018963968"
proof -
  have e: "Suc 14 = 15"
    by simp
  have "timer 15 = fadd (timer 14) DT"
    using timer.simps(2)[of 14] unfolding e .
  also have "\<dots> = 5404319552844595 / 36028797018963968"
    unfolding timer_14 DT_value by code_simp
  finally show ?thesis .
qed

lemma timer_16: "timer 16 = 5764607523034235 / 36028797018963968"
proof -
  have e: "Suc 15 = 16"
    by simp
  have "timer 16 = fadd (timer 15) DT"
    using timer.simps(2)[of 15] unfolding e .
  also have "\<dots> = 5764607523034235 / 36028797018963968"
    unfolding timer_15 DT_value by code_simp
  finally show ?thesis .
qed

lemma timer_17: "timer 17 = 6124895493223875 / 36028797018963968"
proof -
  have e: "Suc 16 = 17"
    by simp
  have "timer 17 = fadd (timer 16) DT"
    using timer.simps(2)[of 16] unfolding e .
  also have "\<dots> = 6124895493223875 / 36028797018963968"
    unfolding timer_16 DT_value by code_simp
  finally show ?thesis .
qed

lemma timer_18: "timer 18 = 6485183463413515 / 36028797018963968"
proof -
  have e: "Suc 17 = 18"
    by simp
  have "timer 18 = fadd (timer 17) DT"
    using timer.simps(2)[of 17] unfolding e .
  also have "\<dots> = 6485183463413515 / 36028797018963968"
    unfolding timer_17 DT_value by code_simp
  finally show ?thesis .
qed

lemma timer_19: "timer 19 = 6845471433603155 / 36028797018963968"
proof -
  have e: "Suc 18 = 19"
    by simp
  have "timer 19 = fadd (timer 18) DT"
    using timer.simps(2)[of 18] unfolding e .
  also have "\<dots> = 6845471433603155 / 36028797018963968"
    unfolding timer_18 DT_value by code_simp
  finally show ?thesis .
qed

lemma timer_20: "timer 20 = 7205759403792795 / 36028797018963968"
proof -
  have e: "Suc 19 = 20"
    by simp
  have "timer 20 = fadd (timer 19) DT"
    using timer.simps(2)[of 19] unfolding e .
  also have "\<dots> = 7205759403792795 / 36028797018963968"
    unfolding timer_19 DT_value by code_simp
  finally show ?thesis .
qed

lemmas timer_values = timer.simps(1) timer_1 timer_1[unfolded One_nat_def] timer_2 timer_3 timer_4 timer_5 timer_6 timer_7 timer_8 timer_9 timer_10 timer_11 timer_12 timer_13 timer_14 timer_15 timer_16 timer_17 timer_18 timer_19 timer_20

lemma timer_below:
  assumes "n \<le> 19"
  shows "\<not> single_support_duration < timer n"
proof -
  from assms have "n \<in> {0..<20}"
    by simp
  then have "n \<in> {0, 1, 2, 3, 4, 5, 6, 7, 8, 9, 10, 11, 12, 13, 14, 15, 16, 17, 18, 19}"
    by (auto simp: atLeastLessThan_nat_numeral)
  then show ?thesis
    unfolding single_support_duration_value
    by (elim insertE emptyE; hypsubst; simp only: timer_values; simp)
qed

lemma timer_above: "single_support_duration < timer 20"
  unfolding single_support_duration_value timer_20 by simp

lemma single_support_duration_pos: "\<not> single_support_duration < 0"
  unfolding single_support_duration_value by simp

text \<open>
  The planning clock in float arithmetic: adding \<open>DT\<close> moves a clock of magnitude up to
  \<open>2 ^ 45\<close> seconds strictly forward; and while the clock is negative, the target
  \<^verbatim>\<open>start_t + t\<close> of the pacing loop is not after \<open>start_t\<close>.
\<close>

lemma fadd_DT_step:
  assumes "- 1 \<le> x" and "x \<le> - 1 / 2"
  shows "x \<le> fadd x DT" and "fadd x DT \<le> x + 1 / 50"
proof -
  have "\<bar>x + DT\<bar> \<le> 1"
    using assms unfolding DT_value by (simp add: abs_le_iff)
  from round_double_near[OF this tiny_le_one]
  have "\<bar>fadd x DT - (x + DT)\<bar> \<le> 1 / 9007199254740992"
    by (simp add: fadd_def)
  then show "x \<le> fadd x DT" and "fadd x DT \<le> x + 1 / 50"
    unfolding DT_value by linarith+
qed

lemma fadd_DT_increases:
  assumes "\<bar>x\<bar> \<le> 2 ^ 45"
  shows "x < fadd x DT"
proof -
  have "\<bar>x + DT\<bar> \<le> 2 ^ 46"
    using assms unfolding DT_value by (simp add: abs_le_iff)
  moreover have "(1 :: rat) / 2 ^ 1022 \<le> 2 ^ 46"
    using tiny_le_one by (simp add: field_simps)
  ultimately have "\<bar>fadd x DT - (x + DT)\<bar> \<le> 2 ^ 46 / 2 ^ 53"
    unfolding fadd_def by (rule round_double_near)
  then have "\<bar>fadd x DT - (x + DT)\<bar> \<le> 1 / 128"
    by simp
  then show ?thesis
    unfolding DT_value by linarith
qed

lemma pacing_target_early:
  assumes "0 \<le> start_t" and "start_t \<le> 2 ^ 52" and "- 1 \<le> x" and "x \<le> - 1 / 2"
  shows "fadd start_t x \<le> start_t"
proof -
  have "\<bar>start_t + x\<bar> \<le> 2 ^ 52"
    using assms by (simp add: abs_le_iff)
  moreover have "(1 :: rat) / 2 ^ 1022 \<le> 2 ^ 52"
    using tiny_le_one by (simp add: field_simps)
  ultimately have "\<bar>fadd start_t x - (start_t + x)\<bar> \<le> 2 ^ 52 / 2 ^ 53"
    unfolding fadd_def by (rule round_double_near)
  then have "\<bar>fadd start_t x - (start_t + x)\<bar> \<le> 1 / 2"
    by simp
  then show ?thesis
    using assms(4) by linarith
qed

subsection \<open>The pacing loop\<close>

text \<open>
  The pacing loop returns at the first clock reading that is not before its target, if
  there is one among the readings.
\<close>

lemma pace_returns:
  assumes "\<exists>c\<in>set cs. target \<le> c"
  shows "\<exists>c n. pace target cs = Some (c, n) \<and> target \<le> c \<and> n < length cs \<and> c = cs ! n
     \<and> (\<forall>i<n. cs ! i < target)"
  using assms
proof (induction cs)
  case Nil
  then show ?case by simp
next
  case (Cons c cs)
  show ?case
  proof (cases "c < target")
    case False
    then show ?thesis by simp
  next
    case True
    with Cons.prems have "\<exists>c\<in>set cs. target \<le> c" by auto
    from Cons.IH[OF this] obtain c' n where p: "pace target cs = Some (c', n)"
      and c': "target \<le> c'" "n < length cs" "c' = cs ! n" "\<forall>i<n. cs ! i < target"
      by blast
    have "\<forall>i<Suc n. (c # cs) ! i < target"
      using True c'(4) by (auto simp: less_Suc_eq_0_disj)
    with True p c' show ?thesis by simp
  qed
qed

lemma pace_Some:
  assumes "pace target cs = Some (c, n)"
  shows "target \<le> c \<and> n < length cs \<and> c = cs ! n \<and> (\<forall>i<n. cs ! i < target)"
  using assms
proof (induction cs arbitrary: n)
  case Nil
  then show ?case by simp
next
  case (Cons c0 cs)
  show ?case
  proof (cases "c0 < target")
    case False
    with Cons.prems show ?thesis by simp
  next
    case True
    with Cons.prems obtain m where p: "pace target cs = Some (c, m)" and n: "n = Suc m"
      by (auto split: option.splits)
    from Cons.IH[OF p] True n show ?thesis
      by (auto simp: less_Suc_eq_0_disj)
  qed
qed


lemma tick_of_body:
  assumes "tick_body env a inp s = Inr s1"
  shows "tick env a start_t inp s =
     (case pace (fadd start_t (t s1)) (clock inp) of None \<Rightarrow> None | Some r \<Rightarrow> Some (Inr s1))"
  using assms by (simp add: tick_def)

lemma first_clock_value: "fadd initial_delay DT = - (4458563631096791 / 4503599627370496)"
  unfolding DT_value by code_simp

lemma first_target_value: "fadd 1000 (- (4458563631096791 / 4503599627370496)) = 4393692445058007 / 4398046511104"
  by code_simp

text \<open>
  C7 fails as stated in its last part: the pacing loop holds the planning clock back, not
  the wall clock. In the first iteration of a run started at wall-clock time 1000, with the
  wall clock still at 1000 when the pacing loop is reached, the planning clock is at
  \<^verbatim>\<open>-0.99\<close>, the loop returns without a sleep, and the wall clock is ahead of
  \<^verbatim>\<open>start_t + t\<close>.
\<close>

theorem wall_clock_leads_counterexample:
  "initial_engine mujoco_args (0::nat) (0::nat) (None::rat option) (0::nat) = Inr entry_engine
   \<and> map_option (map_sum id t)
        (tick counting_placo mujoco_args 1000
           \<lparr>feet_contact = (True, True), key_pressed = False, clock = [1000]\<rparr> entry_engine)
       = Some (Inr (- (4458563631096791 / 4503599627370496)))
   \<and> pace (fadd 1000 (- (4458563631096791 / 4503599627370496))) [1000] = Some (1000, 0)
   \<and> fadd 1000 (- (4458563631096791 / 4503599627370496)) < 1000"
proof -
  let ?inp = "\<lparr>feet_contact = (True, True), key_pressed = False, clock = [1000]\<rparr>"
  have s0: "time_since_last_left_contact entry_engine = Some 0"
    "time_since_last_right_contact entry_engine = Some 0" "t entry_engine = initial_delay"
    by (simp_all add: entry_engine_def)
  obtain s1 where b: "tick_body counting_placo mujoco_args ?inp entry_engine = Inr s1"
    using tick_body_mujoco[OF mujoco_args_server s0(1,2)] by metis
  have t1: "t s1 = - (4458563631096791 / 4503599627370496)"
    using tick_body_calls(5)[OF b] s0(3) first_clock_value by simp
  have p: "pace (fadd 1000 (- (4458563631096791 / 4503599627370496))) [1000] = Some (1000, 0)"
    and l: "fadd 1000 (- (4458563631096791 / 4503599627370496)) < 1000"
    unfolding first_target_value by simp_all
  have "tick counting_placo mujoco_args 1000 ?inp entry_engine = Some (Inr s1)"
    using tick_of_body[OF b, of 1000] p t1 by simp
  with entry_engine_initial t1 p l show ?thesis
    by simp
qed

text \<open>
  C7, amended. Every iteration that completes adds \<open>DT\<close> to the planning clock once, as its
  last assignment and whatever \<open>petage_de_gueule\<close> is, so the clock strictly increases from
  one iteration to the next while its magnitude is at most \<open>2 ^ 45\<close> seconds (float
  addition). The pacing loop then keeps the planning clock from leading the wall clock: it
  returns at the first clock reading that is not before \<^verbatim>\<open>start_t + t\<close>, after one sleep
  for every earlier reading, and it returns whenever there is such a reading.
\<close>

theorem planning_clock:
  assumes "tick_body env a inp s = Inr s1"
  shows "t s1 = fadd (t s) DT
    \<and> (\<bar>t s\<bar> \<le> 2 ^ 45 \<longrightarrow> t s < t s1)
    \<and> tick env a start_t inp s =
        (case pace (fadd start_t (t s1)) (clock inp) of None \<Rightarrow> None | Some r \<Rightarrow> Some (Inr s1))
    \<and> ((\<exists>c\<in>set (clock inp). fadd start_t (t s1) \<le> c) \<longrightarrow>
          tick env a start_t inp s = Some (Inr s1))
    \<and> (\<forall>c n. pace (fadd start_t (t s1)) (clock inp) = Some (c, n) \<longrightarrow>
          fadd start_t (t s1) \<le> c \<and> n < length (clock inp) \<and> c = clock inp ! n
          \<and> (\<forall>i<n. clock inp ! i < fadd start_t (t s1)))"
proof -
  have adv: "t s1 = fadd (t s) DT"
    by (rule tick_body_calls(5)[OF assms])
  have inc: "\<bar>t s\<bar> \<le> 2 ^ 45 \<longrightarrow> t s < t s1"
    using fadd_DT_increases[of "t s"] adv by simp
  note tk = tick_of_body[OF assms, of start_t]
  have ret: "(\<exists>c\<in>set (clock inp). fadd start_t (t s1) \<le> c) \<longrightarrow>
          tick env a start_t inp s = Some (Inr s1)"
  proof
    assume "\<exists>c\<in>set (clock inp). fadd start_t (t s1) \<le> c"
    from pace_returns[OF this] obtain c n where
      "pace (fadd start_t (t s1)) (clock inp) = Some (c, n)" by blast
    then show "tick env a start_t inp s = Some (Inr s1)"
      by (simp add: tk)
  qed
  have exit: "\<forall>c n. pace (fadd start_t (t s1)) (clock inp) = Some (c, n) \<longrightarrow>
          fadd start_t (t s1) \<le> c \<and> n < length (clock inp) \<and> c = clock inp ! n
          \<and> (\<forall>i<n. clock inp ! i < fadd start_t (t s1))"
    using pace_Some by blast
  from adv inc tk ret exit show ?thesis
    by blast
qed

lemma example_clock_value: "fadd 1 DT = 4548635623644201 / 4503599627370496"
  unfolding DT_value by code_simp

lemma example_target_value: "fadd 0 (4548635623644201 / 4503599627370496) = 4548635623644201 / 4503599627370496"
  by code_simp

theorem planning_clock_witness:
  "\<exists>s1. tick_body counting_placo mujoco_args
          \<lparr>feet_contact = (True, True), key_pressed = False, clock = [1, 201 / 200, 51 / 50]\<rparr>
          example_engine = Inr s1
     \<and> \<bar>t example_engine\<bar> \<le> 2 ^ 45
     \<and> t s1 = 4548635623644201 / 4503599627370496
     \<and> t example_engine < t s1
     \<and> (\<exists>c\<in>set [1, 201 / 200, 51 / 50 :: rat]. fadd 0 (t s1) \<le> c)
     \<and> tick counting_placo mujoco_args 0
          \<lparr>feet_contact = (True, True), key_pressed = False, clock = [1, 201 / 200, 51 / 50]\<rparr>
          example_engine = Some (Inr s1)
     \<and> pace (fadd 0 (t s1)) [1, 201 / 200, 51 / 50] = Some (51 / 50, 2)"
proof -
  let ?inp = "\<lparr>feet_contact = (True, True), key_pressed = False, clock = [1, 201 / 200, 51 / 50]\<rparr>"
  have e: "time_since_last_left_contact example_engine = Some 0"
    "time_since_last_right_contact example_engine = Some 0" "t example_engine = 1"
    by (simp_all add: example_engine_def)
  obtain s1 where b: "tick_body counting_placo mujoco_args ?inp example_engine = Inr s1"
    using tick_body_mujoco[OF mujoco_args_server e(1,2)] by metis
  note th = planning_clock[OF b, of 0]
  have small: "\<bar>t example_engine\<bar> \<le> 2 ^ 45"
    by (simp add: e)
  from th have t1: "t s1 = 4548635623644201 / 4503599627370496"
    by (simp add: e example_clock_value)
  from th small have inc: "t example_engine < t s1"
    by blast
  have "fadd 0 (t s1) \<le> 51 / 50"
    unfolding t1 example_target_value by simp
  then have reach: "\<exists>c\<in>set [1, 201 / 200, 51 / 50 :: rat]. fadd 0 (t s1) \<le> c"
    by (intro bexI[of _ "51 / 50"]) simp_all
  then have reach': "\<exists>c\<in>set (clock ?inp). fadd 0 (t s1) \<le> c"
    by simp
  from th reach' have ret: "tick counting_placo mujoco_args 0 ?inp example_engine = Some (Inr s1)"
    by blast
  have p: "pace (fadd 0 (t s1)) [1, 201 / 200, 51 / 50] = Some (51 / 50, 2)"
    unfolding t1 example_target_value by simp
  from b small t1 inc reach ret p show ?thesis
    by blast
qed

subsection \<open>The loss-of-footing flag\<close>

lemma half_exceeds: "single_support_duration < 1 / 2"
  unfolding single_support_duration_value by simp

text \<open>
  C3 fails as stated: the test of lines 298 to 301 reads the two timers only and never asks
  the trajectory for the support phase. Below, the left timer stands at half a second and
  the left foot reports no contact: the iteration sets \<open>petage_de_gueule\<close>, although the
  condition of the specification does not hold in double support, nor in single support on
  the right foot.
\<close>

theorem fault_ignores_support_phase_counterexample:
  "map_sum id petage_de_gueule
     (tick_body counting_placo mujoco_args
        \<lparr>feet_contact = (True, False), key_pressed = False, clock = [0]\<rparr>
        (example_engine\<lparr>time_since_last_left_contact := Some (1 / 2)\<rparr>)) = Inr True
   \<and> \<not> specified_fault Double (1 / 2) 0
   \<and> \<not> specified_fault Single_right (1 / 2) 0"
proof -
  let ?inp = "\<lparr>feet_contact = (True, False), key_pressed = False, clock = [0]\<rparr>"
  let ?s = "example_engine\<lparr>time_since_last_left_contact := Some (1 / 2)\<rparr>"
  have s: "time_since_last_left_contact ?s = Some (1 / 2)"
    "time_since_last_right_contact ?s = Some 0"
    by (simp_all add: example_engine_def)
  obtain s' where "tick_body counting_placo mujoco_args ?inp ?s = Inr s'"
    and "petage_de_gueule s' \<longleftrightarrow>
          single_support_duration < (if snd (feet_contact ?inp) then 0 else 1 / 2)
          \<or> single_support_duration < (if fst (feet_contact ?inp) then 0 else 0)"
    by (rule tick_body_mujoco[OF mujoco_args_server s, of counting_placo ?inp])
  then have "map_sum id petage_de_gueule (tick_body counting_placo mujoco_args ?inp ?s) = Inr True"
    using half_exceeds by simp
  moreover have "\<not> specified_fault Double (1 / 2) 0" "\<not> specified_fault Single_right (1 / 2) 0"
    using single_support_duration_pos by (simp_all add: specified_fault_def)
  ultimately show ?thesis by simp
qed

text \<open>
  C3, amended. With the MuJoCo back end, every iteration first sets to zero the timer of
  each foot that reports contact; at its end \<open>petage_de_gueule\<close> is set exactly when the
  left or the right timer, after that reset, exceeds \<open>single_support_duration\<close>, whatever
  the support phase and whatever the flag was before; then each timer has advanced by
  \<open>DT\<close>. So an iteration in which both feet report contact always ends with the flag
  cleared.
\<close>

theorem fault_state_machine:
  assumes "bound a = Some Server"
    and "time_since_last_left_contact s = Some l"
    and "time_since_last_right_contact s = Some r"
    and "feet_contact inp = (right_contact, left_contact)"
  shows "\<exists>s'. tick_body env a inp s = Inr s'
    \<and> (petage_de_gueule s' \<longleftrightarrow>
          single_support_duration < (if left_contact then 0 else l)
          \<or> single_support_duration < (if right_contact then 0 else r))
    \<and> time_since_last_left_contact s' = Some (fadd (if left_contact then 0 else l) DT)
    \<and> time_since_last_right_contact s' = Some (fadd (if right_contact then 0 else r) DT)
    \<and> (left_contact \<and> right_contact \<longrightarrow> \<not> petage_de_gueule s')"
proof -
  from tick_body_mujoco[OF assms(1,2,3), of env inp] obtain s' where
    "tick_body env a inp s = Inr s'"
    "time_since_last_left_contact s' = Some (fadd (if snd (feet_contact inp) then 0 else l) DT)"
    "time_since_last_right_contact s' = Some (fadd (if fst (feet_contact inp) then 0 else r) DT)"
    "petage_de_gueule s' \<longleftrightarrow>
          single_support_duration < (if snd (feet_contact inp) then 0 else l)
          \<or> single_support_duration < (if fst (feet_contact inp) then 0 else r)"
    by blast
  then show ?thesis
    using assms(4) single_support_duration_pos by auto
qed

theorem fault_state_machine_witness:
  "bound mujoco_args = Some Server
   \<and> time_since_last_left_contact (example_engine\<lparr>time_since_last_left_contact := Some (1 / 2)\<rparr>)
       = Some (1 / 2)
   \<and> time_since_last_right_contact (example_engine\<lparr>time_since_last_left_contact := Some (1 / 2)\<rparr>)
       = Some 0
   \<and> (\<exists>s'. tick_body counting_placo mujoco_args
              \<lparr>feet_contact = (True, False), key_pressed = False, clock = [0]\<rparr>
              (example_engine\<lparr>time_since_last_left_contact := Some (1 / 2)\<rparr>) = Inr s'
        \<and> petage_de_gueule s'
        \<and> time_since_last_left_contact s' = Some (fadd (1 / 2) DT)
        \<and> time_since_last_right_contact s' = Some (fadd 0 DT))
   \<and> (\<exists>s'. tick_body counting_placo mujoco_args
              \<lparr>feet_contact = (True, True), key_pressed = False, clock = [0]\<rparr>
              (example_engine\<lparr>time_since_last_left_contact := Some (1 / 2),
                              petage_de_gueule := True\<rparr>) = Inr s'
        \<and> \<not> petage_de_gueule s'
        \<and> time_since_last_left_contact s' = Some (fadd 0 DT))"
proof -
  let ?s = "example_engine\<lparr>time_since_last_left_contact := Some (1 / 2)\<rparr>"
  let ?s2 = "example_engine\<lparr>time_since_last_left_contact := Some (1 / 2), petage_de_gueule := True\<rparr>"
  have s: "time_since_last_left_contact ?s = Some (1 / 2)"
    "time_since_last_right_contact ?s = Some 0"
    by (simp_all add: example_engine_def)
  have s2: "time_since_last_left_contact ?s2 = Some (1 / 2)"
    "time_since_last_right_contact ?s2 = Some 0"
    by (simp_all add: example_engine_def)
  have i1: "feet_contact \<lparr>feet_contact = (True, False), key_pressed = False, clock = [0]\<rparr> = (True, False)"
    and i2: "feet_contact \<lparr>feet_contact = (True, True), key_pressed = False, clock = [0]\<rparr> = (True, True)"
    by simp_all
  from fault_state_machine[OF mujoco_args_server s i1, of counting_placo] half_exceeds
  have a: "\<exists>s'. tick_body counting_placo mujoco_args
              \<lparr>feet_contact = (True, False), key_pressed = False, clock = [0]\<rparr> ?s = Inr s'
        \<and> petage_de_gueule s'
        \<and> time_since_last_left_contact s' = Some (fadd (1 / 2) DT)
        \<and> time_since_last_right_contact s' = Some (fadd 0 DT)"
    by simp
  from fault_state_machine[OF mujoco_args_server s2 i2, of counting_placo]
  have b: "\<exists>s'. tick_body counting_placo mujoco_args
              \<lparr>feet_contact = (True, True), key_pressed = False, clock = [0]\<rparr> ?s2 = Inr s'
        \<and> \<not> petage_de_gueule s'
        \<and> time_since_last_left_contact s' = Some (fadd 0 DT)"
    by (simp add: single_support_duration_pos) blast
  from mujoco_args_server s a b show ?thesis
    by blast
qed

subsection \<open>Twenty-one iterations without contact\<close>

text \<open>
  One iteration in terms of the timer table: a timer that stood at \<open>timer i\<close> stands at
  \<open>timer 1\<close> after an iteration with contact and at \<open>timer (i + 1)\<close> after one without.
\<close>

lemma tick_timers:
  assumes "bound a = Some Server"
    and "time_since_last_left_contact s = Some (timer i)"
    and "time_since_last_right_contact s = Some (timer j)"
  obtains s' where "tick_body env a inp s = Inr s'"
    and "time_since_last_left_contact s' = Some (timer (if snd (feet_contact inp) then 1 else Suc i))"
    and "time_since_last_right_contact s' = Some (timer (if fst (feet_contact inp) then 1 else Suc j))"
    and "petage_de_gueule s' \<longleftrightarrow>
          single_support_duration < timer (if snd (feet_contact inp) then 0 else i)
          \<or> single_support_duration < timer (if fst (feet_contact inp) then 0 else j)"
    and "t s' = fadd (t s) DT"
proof -
  obtain s' where b: "tick_body env a inp s = Inr s'"
    and l: "time_since_last_left_contact s' = Some (fadd (if snd (feet_contact inp) then 0 else timer i) DT)"
    and r: "time_since_last_right_contact s' = Some (fadd (if fst (feet_contact inp) then 0 else timer j) DT)"
    and p: "petage_de_gueule s' \<longleftrightarrow>
          single_support_duration < (if snd (feet_contact inp) then 0 else timer i)
          \<or> single_support_duration < (if fst (feet_contact inp) then 0 else timer j)"
    by (rule tick_body_mujoco[OF assms, of env inp])
  have "tick_body env a inp s = Inr s'"
    by (rule b)
  moreover have "time_since_last_left_contact s' = Some (timer (if snd (feet_contact inp) then 1 else Suc i))"
    using l by simp
  moreover have "time_since_last_right_contact s' = Some (timer (if fst (feet_contact inp) then 1 else Suc j))"
    using r by simp
  moreover have "petage_de_gueule s' \<longleftrightarrow>
          single_support_duration < timer (if snd (feet_contact inp) then 0 else i)
          \<or> single_support_duration < timer (if fst (feet_contact inp) then 0 else j)"
    using p by simp
  moreover have "t s' = fadd (t s) DT"
    by (rule tick_body_calls(5)[OF b])
  ultimately show thesis
    by (rule that)
qed

text \<open>
  A run in which one foot never reports contact, from a state in which the timer of that
  foot stands at \<open>timer i\<close> and the other timer is not ahead of it. \<open>left\<close> tells which foot
  it is. The clock is negative throughout, so the pacing loop returns at the first reading
  that is not before \<open>start_t\<close>.
\<close>

lemma run_without_contact:
  assumes "bound a = Some Server"
    and "0 \<le> start_t" and "start_t \<le> 2 ^ 52"
    and "\<forall>inp\<in>set inps. \<exists>c\<in>set (clock inp). start_t \<le> c"
    and "\<forall>inp\<in>set inps. \<not> (if left then snd (feet_contact inp) else fst (feet_contact inp))"
    and "(if left then time_since_last_left_contact s else time_since_last_right_contact s)
          = Some (timer i)"
    and "(if left then time_since_last_right_contact s else time_since_last_left_contact s)
          = Some (timer j)"
    and "j \<le> i"
    and "- 1 \<le> t s" and "t s \<le> - 1 + of_nat i / 50"
    and "i + length inps \<le> 21"
  shows "\<exists>s'. run env a start_t inps s = Some (Inr s')
    \<and> (inps \<noteq> [] \<longrightarrow> (petage_de_gueule s' \<longleftrightarrow> i + length inps = 21))"
  using assms(4-)
proof (induction inps arbitrary: s i j)
  case Nil
  then show ?case by simp
next
  case (Cons inp inps)
  from Cons.prems(8) have i20: "i \<le> 20" by simp
  obtain li ri where lr: "time_since_last_left_contact s = Some (timer li)"
    "time_since_last_right_contact s = Some (timer ri)"
    "li = (if left then i else j)" "ri = (if left then j else i)"
    using Cons.prems(3,4) by (cases left) simp_all
  obtain s1 where b: "tick_body env a inp s = Inr s1"
    and l1: "time_since_last_left_contact s1 = Some (timer (if snd (feet_contact inp) then 1 else Suc li))"
    and r1: "time_since_last_right_contact s1 = Some (timer (if fst (feet_contact inp) then 1 else Suc ri))"
    and p1: "petage_de_gueule s1 \<longleftrightarrow>
          single_support_duration < timer (if snd (feet_contact inp) then 0 else li)
          \<or> single_support_duration < timer (if fst (feet_contact inp) then 0 else ri)"
    and t1: "t s1 = fadd (t s) DT"
    by (rule tick_timers[OF assms(1) lr(1,2), of env inp])
  have absent: "\<not> (if left then snd (feet_contact inp) else fst (feet_contact inp))"
    using Cons.prems(2) by simp
  \<comment> \<open>the clock stays in \<open>[- 1, - 1 / 2]\<close>\<close>
  have ts: "t s \<le> - 1 / 2"
  proof -
    have "(of_nat i :: rat) \<le> 20" using i20 by simp
    then have "(of_nat i :: rat) / 50 \<le> 20 / 50"
      by (rule divide_right_mono) simp
    with Cons.prems(7) show ?thesis by linarith
  qed
  have t1lo: "- 1 \<le> t s1" and t1hi: "t s1 \<le> - 1 + of_nat (Suc i) / 50"
    using fadd_DT_step[OF Cons.prems(6) ts] Cons.prems(6,7) t1 by (simp_all add: field_simps)
  have t1half: "t s1 \<le> - 1 / 2"
  proof -
    have "(of_nat i :: rat) \<le> 20"
      using i20 by simp
    then have "(of_nat (Suc i) :: rat) \<le> 21"
      by simp
    then have "(of_nat (Suc i) :: rat) / 50 \<le> 21 / 50"
      by (rule divide_right_mono) simp
    with t1hi show ?thesis by linarith
  qed
  \<comment> \<open>the pacing loop returns\<close>
  have "fadd start_t (t s1) \<le> start_t"
    by (rule pacing_target_early[OF assms(2,3) t1lo t1half])
  moreover obtain c where "c \<in> set (clock inp)" "start_t \<le> c"
    using Cons.prems(1) by auto
  ultimately have "\<exists>c\<in>set (clock inp). fadd start_t (t s1) \<le> c"
    by (intro bexI[of _ c]) simp_all
  from pace_returns[OF this] obtain c' n where
    "pace (fadd start_t (t s1)) (clock inp) = Some (c', n)" by blast
  then have tk: "tick env a start_t inp s = Some (Inr s1)"
    using tick_of_body[OF b, of start_t] by simp
  \<comment> \<open>the timers and the flag after the iteration\<close>
  define j1 where "j1 = (if (if left then fst (feet_contact inp) else snd (feet_contact inp)) then 1 else Suc j)"
  have own: "(if left then time_since_last_left_contact s1 else time_since_last_right_contact s1)
          = Some (timer (Suc i))"
    using l1 r1 lr(3,4) absent by (cases left) simp_all
  have other: "(if left then time_since_last_right_contact s1 else time_since_last_left_contact s1)
          = Some (timer j1)"
    using l1 r1 lr(3,4) by (cases left) (simp_all add: j1_def)
  have j1: "j1 \<le> Suc i"
    using Cons.prems(5) by (simp add: j1_def)
  have flag: "petage_de_gueule s1 \<longleftrightarrow> i = 20"
  proof (cases "i = 20")
    case True
    then have "single_support_duration < timer i"
      using timer_above by simp
    then show ?thesis
      using p1 lr(3,4) absent True by (cases left) auto
  next
    case False
    with i20 have i19: "i \<le> 19" by simp
    then have "j \<le> 19" using Cons.prems(5) by simp
    with i19 have "\<not> single_support_duration < timer i" "\<not> single_support_duration < timer j"
      "\<not> single_support_duration < timer 0"
      using single_support_duration_pos by (simp_all add: timer_below)
    then show ?thesis
      using p1 lr(3,4) False by (cases left) auto
  qed
  show ?case
  proof (cases "inps = []")
    case True
    with tk flag show ?thesis by simp
  next
    case False
    have "\<exists>s'. run env a start_t inps s1 = Some (Inr s')
      \<and> (inps \<noteq> [] \<longrightarrow> (petage_de_gueule s' \<longleftrightarrow> Suc i + length inps = 21))"
      using Cons.prems(1,2,8) by (intro Cons.IH[OF _ _ own other j1 t1lo t1hi]) simp_all
    with tk False show ?thesis by simp
  qed
qed


text \<open>
  C2. With \<open>single_support_duration = 0.2\<close> and \<open>DT = 0.01\<close>, from the initial state with
  the MuJoCo back end, let one foot report no contact in every iteration (its timer starts
  at \<open>0\<close> and is never reset), whatever the other foot and the keyboard do; let the run
  start at a wall-clock time between \<open>0\<close> and \<open>2 ^ 52\<close> seconds and the clock never read
  less than that in the pacing loop. Then the run of up to 21 iterations completes, and
  \<open>petage_de_gueule\<close> is set at its end exactly when it has 21 iterations: not after any of
  the first 20, and after the 21st.
\<close>

theorem fault_after_21_ticks:
  assumes "bound a = Some Server"
    and "initial_engine a traj sp tk rb = Inr s0"
    and "0 \<le> start_t" and "start_t \<le> 2 ^ 52"
    and "\<forall>inp\<in>set inps. \<exists>c\<in>set (clock inp). start_t \<le> c"
    and "(\<forall>inp\<in>set inps. \<not> snd (feet_contact inp)) \<or> (\<forall>inp\<in>set inps. \<not> fst (feet_contact inp))"
    and "length inps \<le> 21"
  shows "\<exists>s'. run env a start_t inps s0 = Some (Inr s')
    \<and> (petage_de_gueule s' \<longleftrightarrow> length inps = 21)"
proof -
  from assms(1,2) have s0: "time_since_last_left_contact s0 = Some (timer 0)"
    "time_since_last_right_contact s0 = Some (timer 0)" "t s0 = - 1" "\<not> petage_de_gueule s0"
    by (auto simp: initial_engine_def initial_delay_def)
  have lo: "- 1 \<le> t s0" and hi: "t s0 \<le> - 1 + of_nat 0 / 50"
    using s0(3) by simp_all
  have n: "0 + length inps \<le> 21"
    using assms(7) by simp
  from assms(6) obtain left where
    absent: "\<forall>inp\<in>set inps. \<not> (if left then snd (feet_contact inp) else fst (feet_contact inp))"
    by (cases "\<forall>inp\<in>set inps. \<not> snd (feet_contact inp)") (auto intro: that[of True] that[of False])
  have own: "(if left then time_since_last_left_contact s0 else time_since_last_right_contact s0)
      = Some (timer 0)"
    and other: "(if left then time_since_last_right_contact s0 else time_since_last_left_contact s0)
      = Some (timer 0)"
    using s0(1,2) by simp_all
  from run_without_contact[OF assms(1,3,4,5) absent own other le_refl lo hi n, of env]
  obtain s' where r: "run env a start_t inps s0 = Some (Inr s')"
    and p: "inps \<noteq> [] \<longrightarrow> (petage_de_gueule s' \<longleftrightarrow> 0 + length inps = 21)"
    by blast
  show ?thesis
  proof (cases "inps = []")
    case True
    with r s0(4) show ?thesis by simp
  next
    case False
    with r p show ?thesis by simp
  qed
qed

theorem fault_after_21_ticks_witness:
  "bound mujoco_args = Some Server
   \<and> initial_engine mujoco_args (0::nat) (0::nat) (None::rat option) (0::nat) = Inr entry_engine
   \<and> (0::rat) \<le> 1000 \<and> (1000::rat) \<le> 2 ^ 52
   \<and> (\<exists>s'. run counting_placo mujoco_args 1000
         (replicate 21 \<lparr>feet_contact = (True, False), key_pressed = False, clock = [1000]\<rparr>)
         entry_engine = Some (Inr s') \<and> petage_de_gueule s')
   \<and> (\<exists>s'. run counting_placo mujoco_args 1000
         (replicate 20 \<lparr>feet_contact = (True, False), key_pressed = False, clock = [1000]\<rparr>)
         entry_engine = Some (Inr s') \<and> \<not> petage_de_gueule s')
   \<and> (\<exists>s'. run counting_placo mujoco_args 1000
         (replicate 21 \<lparr>feet_contact = (False, True), key_pressed = False, clock = [1000]\<rparr>)
         entry_engine = Some (Inr s') \<and> petage_de_gueule s')"
proof -
  let ?l = "\<lparr>feet_contact = (True, False), key_pressed = False, clock = [1000]\<rparr>"
  let ?r = "\<lparr>feet_contact = (False, True), key_pressed = False, clock = [1000]\<rparr>"
  note i = entry_engine_initial
  have st: "(0::rat) \<le> 1000" "(1000::rat) \<le> 2 ^ 52"
    by simp_all
  have c: "\<forall>inp\<in>set (replicate n ?l). \<exists>c\<in>set (clock inp). 1000 \<le> c"
    "\<forall>inp\<in>set (replicate n ?r). \<exists>c\<in>set (clock inp). 1000 \<le> c" for n
    by simp_all
  have al: "(\<forall>inp\<in>set (replicate n ?l). \<not> snd (feet_contact inp))
      \<or> (\<forall>inp\<in>set (replicate n ?l). \<not> fst (feet_contact inp))" for n
    by simp
  have ar: "(\<forall>inp\<in>set (replicate n ?r). \<not> snd (feet_contact inp))
      \<or> (\<forall>inp\<in>set (replicate n ?r). \<not> fst (feet_contact inp))" for n
    by simp
  from fault_after_21_ticks[OF mujoco_args_server i st c(1) al, of 21 counting_placo]
  have a: "\<exists>s'. run counting_placo mujoco_args 1000 (replicate 21 ?l) entry_engine = Some (Inr s')
      \<and> petage_de_gueule s'"
    by simp
  from fault_after_21_ticks[OF mujoco_args_server i st c(1) al, of 20 counting_placo]
  have b: "\<exists>s'. run counting_placo mujoco_args 1000 (replicate 20 ?l) entry_engine = Some (Inr s')
      \<and> \<not> petage_de_gueule s'"
    by simp
  from fault_after_21_ticks[OF mujoco_args_server i st c(2) ar, of 21 counting_placo]
  have d: "\<exists>s'. run counting_placo mujoco_args 1000 (replicate 21 ?r) entry_engine = Some (Inr s')
      \<and> petage_de_gueule s'"
    by simp
  from mujoco_args_server i st a b d show ?thesis
    by blast
qed

section \<open>Properties of the footstep planner\<close>

lemma other_side_twice: "other_side (other_side sd) = sd"
  by (cases sd) simp_all

lemma length_place_alternately:
  "length (place_alternately rules sd own other) = length rules"
  by (induction rules arbitrary: sd own other) simp_all

lemma sides_place_alternately:
  "map fst (place_alternately rules sd own other) =
     map (\<lambda>i. if even i then sd else other_side sd) [0..<length rules]"
proof (induction rules arbitrary: sd own other)
  case Nil
  then show ?case by simp
next
  case (Cons rule rules)
  have "[0..<length (rule # rules)] = 0 # map Suc [0..<length rules]"
    by (simp add: upt_conv_Cons map_Suc_upt del: upt_Suc)
  then show ?case
    using Cons.IH[of "other_side sd" other "rule sd own other"]
    by (simp add: other_side_twice comp_def del: upt_Suc)
qed

text \<open>
  C9. For every \<open>num_steps\<close>, the planner as the specification describes it returns
  \<open>num_steps + closing_steps\<close> footsteps, and their side tags alternate from the side
  opposite \<open>starting_side\<close>: the footstep at an even position (the first one is at
  position 0) is on the opposite side, the footstep at an odd position on \<open>starting_side\<close>.
\<close>

theorem plan_alternates:
  "length (plan displace beside num_steps closing_steps starting_side left_pose right_pose)
     = num_steps + closing_steps
   \<and> map fst (plan displace beside num_steps closing_steps starting_side left_pose right_pose)
     = map (\<lambda>i. if even i then other_side starting_side else starting_side)
         [0..<num_steps + closing_steps]"
  by (simp add: plan_def length_place_alternately sides_place_alternately other_side_twice)

end
